theory Spec2Isabelle
  imports Complex_Main "HOL-Library.Word" "HOL-Library.AList"
begin

section \<open>JavaScript values, errors and the browser environment\<close>

text \<open>
  A thrown exception or a rejected promise is the \<open>Inl\<close> branch of a result. The
  constructor \<open>Error msg\<close> is \<^verbatim>\<open>new Error(msg)\<close>; the others are the failures the
  platform itself raises: \<open>FetchFailed\<close> is a rejected \<^verbatim>\<open>fetch\<close> (no response at all),
  \<open>BodyNotJson\<close> a rejected \<^verbatim>\<open>res.json()\<close>, \<open>TypeError\<close> a property read on
  \<^verbatim>\<open>null\<close>/\<^verbatim>\<open>undefined\<close>, \<open>QuotaExceeded\<close> a throwing \<^verbatim>\<open>localStorage.setItem\<close>,
  \<open>IdbError\<close> a failed IndexedDB open or request.
\<close>

datatype js_error =
    Error string
  | FetchFailed
  | BodyNotJson
  | TypeError
  | QuotaExceeded
  | IdbError

datatype jsval =
    JUndefined
  | JNull
  | JBool bool
  | JNum int
  | JStr string
  | JArr "jsval list"
  | JObj "(string \<times> jsval) list"

text \<open>JavaScript truthiness, as used by \<^verbatim>\<open>!x\<close>, \<^verbatim>\<open>x || y\<close> and \<^verbatim>\<open>if (x)\<close>.\<close>

fun truthy :: "jsval \<Rightarrow> bool" where
  "truthy JUndefined = False"
| "truthy JNull = False"
| "truthy (JBool b) = b"
| "truthy (JNum n) = (n \<noteq> 0)"
| "truthy (JStr s) = (s \<noteq> [])"
| "truthy (JArr xs) = True"
| "truthy (JObj kvs) = True"

text \<open>
  A value that is a string or \<^verbatim>\<open>null\<close>/\<^verbatim>\<open>undefined\<close> (what \<^verbatim>\<open>getItem\<close> and
  \<^verbatim>\<open>searchParams.get\<close> return) is a \<open>string option\<close>; it is truthy when it is a
  non-empty string.
\<close>

definition truthy_str :: "string option \<Rightarrow> bool" where
  "truthy_str x = (case x of None \<Rightarrow> False | Some s \<Rightarrow> s \<noteq> [])"

text \<open>\<^verbatim>\<open>a || b\<close> on such values.\<close>

definition or_str :: "string option \<Rightarrow> string option \<Rightarrow> string option" where
  "or_str a b = (if truthy_str a then a else b)"

text \<open>Template-literal / URLSearchParams coercion of a possibly undefined string.\<close>

definition str_of :: "string option \<Rightarrow> string" where
  "str_of x = (case x of None \<Rightarrow> ''undefined'' | Some s \<Rightarrow> s)"

subsection \<open>Numbers and their decimal text\<close>

text \<open>
  The numbers this program computes itself (epoch milliseconds, seconds, HTTP statuses)
  are mathematical integers, which doubles hold exactly below \<open>2^53\<close>; \<open>js_String\<close>
  is \<^verbatim>\<open>String(n)\<close> on such a number. A number read back from a text is a \<open>js_num\<close>:
  \<open>NaN\<close>, an infinity, or \<open>Num x\<close> with \<open>x\<close> the real value of the double.
  \<^verbatim>\<open>Number(s)\<close> itself is the platform's conversion: the world carries it (field
  \<open>js_Number\<close> below), so nothing here fixes which texts it reads.
\<close>

datatype js_num = NaN | Num real | Infinity | NegInfinity

definition digit_char :: "nat \<Rightarrow> char" where
  "digit_char d = ''0123456789'' ! d"

fun dec :: "nat \<Rightarrow> string" where
  "dec n = (if n < 10 then [digit_char n] else dec (n div 10) @ [digit_char (n mod 10)])"

declare dec.simps [simp del]

definition js_String :: "int \<Rightarrow> string" where
  "js_String i = (if i < 0 then CHR ''-'' # dec (nat (- i)) else dec (nat i))"

text \<open>\<^verbatim>\<open>!x\<close> on a number: zero and \<open>NaN\<close> are falsy.\<close>

definition truthy_num :: "js_num \<Rightarrow> bool" where
  "truthy_num x = (case x of NaN \<Rightarrow> False | Num n \<Rightarrow> n \<noteq> 0 | _ \<Rightarrow> True)"

text \<open>
  \<^verbatim>\<open>x - c\<close> for a finite \<open>c\<close>, and \<^verbatim>\<open>a >= x\<close> for a finite \<open>a\<close>; a comparison with
  \<open>NaN\<close> is false.
\<close>

definition js_minus :: "js_num \<Rightarrow> real \<Rightarrow> js_num" where
  "js_minus x c = (case x of Num n \<Rightarrow> Num (n - c) | _ \<Rightarrow> x)"

definition ge_num :: "real \<Rightarrow> js_num \<Rightarrow> bool" where
  "ge_num a x =
     (case x of NaN \<Rightarrow> False | Num n \<Rightarrow> n \<le> a | Infinity \<Rightarrow> False | NegInfinity \<Rightarrow> True)"

subsection \<open>URLs, requests and responses\<close>

text \<open>
  A parsed URL: origin, path, the query as the ordered list of pairs that
  \<^verbatim>\<open>url.searchParams\<close> exposes, and the fragment.
\<close>

record url =
  origin :: string
  pathname :: string
  searchParams :: "(string \<times> string) list"
  hash :: string

text \<open>\<^verbatim>\<open>searchParams.get(k)\<close>: the first value of \<open>k\<close>, or \<^verbatim>\<open>null\<close>.\<close>

definition params_get :: "(string \<times> string) list \<Rightarrow> string \<Rightarrow> string option" where
  "params_get ps k = map_of ps k"

text \<open>\<^verbatim>\<open>searchParams.delete(k)\<close>: removes every pair named \<open>k\<close>.\<close>

definition params_delete :: "string \<Rightarrow> (string \<times> string) list \<Rightarrow> (string \<times> string) list" where
  "params_delete k ps = filter (\<lambda>p. fst p \<noteq> k) ps"

record request =
  req_url :: string
  req_method :: string
  req_headers :: "(string \<times> string) list"
  req_body :: "(string \<times> string) list option"

text \<open>
  The JSON object of a response body, reduced to the fields this program reads; a field
  that is absent or \<^verbatim>\<open>null\<close> is \<open>None\<close>. The fields are typed after the provider's
  API: token fields are strings and a number of seconds, \<open>items\<close> is an array, \<open>next\<close>
  is a string.
\<close>

record api_json =
  access_token :: "string option"
  expires_in :: "int option"
  refresh_token :: "string option"
  items :: "jsval list option"
  "next" :: "string option"

text \<open>
  A response: its status, its body as text (\<^verbatim>\<open>res.text()\<close>) and as parsed JSON
  (\<^verbatim>\<open>res.json()\<close>, \<open>None\<close> when the body does not parse).
\<close>

record response =
  status :: nat
  body_text :: string
  body_json :: "api_json option"

definition ok :: "response \<Rightarrow> bool" where
  "ok res = (200 \<le> status res \<and> status res \<le> 299)"

datatype fetch_result = Rejected | Responded response

text \<open>
  The network is the environment's strategy: it answers a request knowing every
  request issued before it. Nothing bounds the pages a server may chain.
\<close>

type_synonym network = "request list \<Rightarrow> request \<Rightarrow> fetch_result"

record vite_env =
  VITE_SPOTIFY_CLIENT_ID :: "string option"
  VITE_SPOTIFY_REDIRECT_URI :: "string option"

record cache_record =
  rec_key :: string
  rec_data :: jsval
  rec_user :: jsval
  rec_createdAt :: int

record navigation =
  nav_target :: string
  nav_query :: "(string \<times> string) list"

text \<open>
  Everything the program reads or changes outside its own variables. \<open>now\<close> is the
  reading of \<^verbatim>\<open>Date.now()\<close>, a count of milliseconds elapsed since the epoch, which
  the program never sets: a call sees one reading throughout; \<open>requests\<close> logs every \<^verbatim>\<open>fetch\<close> in issue order;
  \<open>location\<close> is the visible URL; \<open>assigned\<close> the target of the last
  \<^verbatim>\<open>window.location.assign\<close>; \<open>entropy\<close> and \<open>drawn\<close> are the byte stream behind
  \<^verbatim>\<open>crypto.getRandomValues\<close> and how much of it was consumed; \<open>storage_full\<close> makes
  \<^verbatim>\<open>localStorage.setItem\<close> throw; \<open>idb_fails\<close> makes IndexedDB opens and requests
  fail; \<open>js_Number\<close> is the platform's \<^verbatim>\<open>Number(s)\<close> on a text.
\<close>

record world =
  localStorage :: "string \<rightharpoonup> string"
  storage_full :: bool
  now :: nat
  requests :: "request list"
  location :: url
  assigned :: "navigation option"
  entropy :: "nat \<Rightarrow> 8 word"
  drawn :: nat
  idb :: "string \<rightharpoonup> cache_record"
  idb_fails :: bool
  import_meta_env :: vite_env
  js_Number :: "string \<Rightarrow> js_num"

definition getItem :: "string \<Rightarrow> world \<Rightarrow> string option" where
  "getItem k w = localStorage w k"

definition setItem :: "string \<Rightarrow> string \<Rightarrow> world \<Rightarrow> js_error + world" where
  "setItem k v w =
     (if storage_full w then Inl QuotaExceeded
      else Inr (w\<lparr>localStorage := (localStorage w)(k \<mapsto> v)\<rparr>))"

definition removeItem :: "string \<Rightarrow> world \<Rightarrow> world" where
  "removeItem k w = w\<lparr>localStorage := (localStorage w)(k := None)\<rparr>"

definition fetch :: "network \<Rightarrow> request \<Rightarrow> world \<Rightarrow> fetch_result \<times> world" where
  "fetch net req w = (net (requests w) req, w\<lparr>requests := requests w @ [req]\<rparr>)"

section \<open>spotifyAuth: PKCE session manager\<close>

definition LS_KEYS_codeVerifier :: string where
  "LS_KEYS_codeVerifier = ''spotify_pkce_code_verifier''"

definition LS_KEYS_state :: string where
  "LS_KEYS_state = ''spotify_oauth_state''"

definition LS_KEYS_token :: string where
  "LS_KEYS_token = ''spotify_access_token''"

definition LS_KEYS_tokenExpiry :: string where
  "LS_KEYS_tokenExpiry = ''spotify_access_token_expiry''"

definition LS_KEYS_refreshToken :: string where
  "LS_KEYS_refreshToken = ''spotify_refresh_token''"

definition LS_KEYS_values :: "string list" where
  "LS_KEYS_values =
     [LS_KEYS_codeVerifier, LS_KEYS_state, LS_KEYS_token, LS_KEYS_tokenExpiry,
      LS_KEYS_refreshToken]"

definition TOKEN_ENDPOINT :: string where
  "TOKEN_ENDPOINT = ''https://accounts.spotify.com/api/token''"

definition getBaseUrl :: "world \<Rightarrow> string" where
  "getBaseUrl w = origin (location w) @ pathname (location w)"

text \<open>\<^verbatim>\<open>Number(localStorage.getItem(LS_KEYS.tokenExpiry) || 0)\<close>.\<close>

definition stored_expiry :: "world \<Rightarrow> js_num" where
  "stored_expiry w =
     (case getItem LS_KEYS_tokenExpiry w of
        None \<Rightarrow> Num 0
      | Some s \<Rightarrow> if s = [] then Num 0 else js_Number w s)"

text \<open>
  The reading of \<^verbatim>\<open>Date.now()\<close> is an integer that a double holds exactly, and
  against such a reading \<^verbatim>\<open>Date.now() >= expiry - 30_000\<close> computed in doubles has
  the outcome of the exact comparison: the difference is exact for an expiry from
  30000 up to \<open>2^57\<close>, negative below that and above every reading beyond it.
\<close>

definition getStoredAccessToken :: "world \<Rightarrow> string option" where
  "getStoredAccessToken w =
     (let token = getItem LS_KEYS_token w;
          expiry = stored_expiry w
      in if \<not> truthy_str token \<or> \<not> truthy_num expiry then None
         else if ge_num (real (now w)) (js_minus expiry 30000) then None
         else token)"

definition hasRefreshToken :: "world \<Rightarrow> bool" where
  "hasRefreshToken w = truthy_str (getItem LS_KEYS_refreshToken w)"

definition clearTokens :: "world \<Rightarrow> world" where
  "clearTokens w = fold removeItem LS_KEYS_values w"

text \<open>
  \<^verbatim>\<open>storeTokenResponse\<close>: three guarded writes in source order. A throwing write
  ends the call with the earlier writes kept.
\<close>

definition storeTokenResponse :: "api_json \<Rightarrow> world \<Rightarrow> (js_error + unit) \<times> world" where
  "storeTokenResponse json w =
     (let t = int (now w) in
      case (if truthy_str (access_token json)
            then setItem LS_KEYS_token (the (access_token json)) w else Inr w) of
        Inl e \<Rightarrow> (Inl e, w)
      | Inr w1 \<Rightarrow>
          (case (if expires_in json \<noteq> None \<and> expires_in json \<noteq> Some 0
                 then setItem LS_KEYS_tokenExpiry
                        (js_String (t + the (expires_in json) * 1000)) w1
                 else Inr w1) of
             Inl e \<Rightarrow> (Inl e, w1)
           | Inr w2 \<Rightarrow>
               (case (if truthy_str (refresh_token json)
                      then setItem LS_KEYS_refreshToken (the (refresh_token json)) w2
                      else Inr w2) of
                  Inl e \<Rightarrow> (Inl e, w2)
                | Inr w3 \<Rightarrow> (Inr (), w3))))"

text \<open>
  The \<^verbatim>\<open>POST\<close> both token calls issue, and the \<^verbatim>\<open>URLSearchParams\<close> body of each.
\<close>

definition token_request :: "(string \<times> string) list \<Rightarrow> request" where
  "token_request body =
     \<lparr>req_url = TOKEN_ENDPOINT, req_method = ''POST'',
      req_headers = [(''Content-Type'', ''application/x-www-form-urlencoded'')],
      req_body = Some body\<rparr>"

definition exchange_body ::
  "string \<Rightarrow> string option \<Rightarrow> string option \<Rightarrow> string \<Rightarrow> (string \<times> string) list" where
  "exchange_body code redirectUri clientId codeVerifier =
     [(''grant_type'', ''authorization_code''),
      (''code'', code),
      (''redirect_uri'', str_of redirectUri),
      (''client_id'', str_of clientId),
      (''code_verifier'', codeVerifier)]"

definition refresh_body :: "string \<Rightarrow> string option \<Rightarrow> (string \<times> string) list" where
  "refresh_body refreshToken clientId =
     [(''grant_type'', ''refresh_token''),
      (''refresh_token'', refreshToken),
      (''client_id'', str_of clientId)]"

definition exchangeCodeForToken ::
  "network \<Rightarrow> string \<Rightarrow> string option \<Rightarrow> string option \<Rightarrow> world \<Rightarrow> (js_error + unit) \<times> world" where
  "exchangeCodeForToken net code clientId redirectUri w =
     (let codeVerifier = getItem LS_KEYS_codeVerifier w in
      if \<not> truthy_str codeVerifier then (Inl (Error ''Missing PKCE code_verifier''), w)
      else
        let body = exchange_body code redirectUri clientId (the codeVerifier)
        in case fetch net (token_request body) w of
             (Rejected, w1) \<Rightarrow> (Inl FetchFailed, w1)
           | (Responded res, w1) \<Rightarrow>
               if \<not> ok res then (Inl (Error ''Token exchange failed''), w1)
               else (case body_json res of
                       None \<Rightarrow> (Inl BodyNotJson, w1)
                     | Some json \<Rightarrow> storeTokenResponse json w1))"

definition refreshAccessToken ::
  "network \<Rightarrow> string option \<Rightarrow> world \<Rightarrow> (js_error + string option) \<times> world" where
  "refreshAccessToken net clientId w =
     (let refreshToken = getItem LS_KEYS_refreshToken w in
      if \<not> truthy_str refreshToken then (Inr None, w)
      else
        let body = refresh_body (the refreshToken) clientId
        in case fetch net (token_request body) w of
             (Rejected, w1) \<Rightarrow> (Inl FetchFailed, w1)
           | (Responded res, w1) \<Rightarrow>
               if \<not> ok res then (Inr None, w1)
               else (case body_json res of
                       None \<Rightarrow> (Inl BodyNotJson, w1)
                     | Some json \<Rightarrow>
                         (case storeTokenResponse json w1 of
                            (Inl e, w2) \<Rightarrow> (Inl e, w2)
                          | (Inr u, w2) \<Rightarrow>
                              (Inr (if truthy_str (access_token json)
                                    then access_token json else None), w2))))"

text \<open>
  The options object of the exported functions; an absent property is \<open>None\<close> and takes
  the destructuring default.
\<close>

record auth_options =
  opt_clientId :: "string option"
  opt_scopes :: "string option"
  opt_redirectUri :: "string option"

definition no_options :: auth_options where
  "no_options = \<lparr>opt_clientId = None, opt_scopes = None, opt_redirectUri = None\<rparr>"

definition default_clientId :: "auth_options \<Rightarrow> world \<Rightarrow> string option" where
  "default_clientId options w =
     (case opt_clientId options of
        None \<Rightarrow> VITE_SPOTIFY_CLIENT_ID (import_meta_env w)
      | Some c \<Rightarrow> Some c)"

definition default_redirectUri :: "auth_options \<Rightarrow> world \<Rightarrow> string option" where
  "default_redirectUri options w =
     (case opt_redirectUri options of
        None \<Rightarrow> or_str (VITE_SPOTIFY_REDIRECT_URI (import_meta_env w)) (Some (getBaseUrl w))
      | Some r \<Rightarrow> Some r)"

definition handleRedirectCallback ::
  "network \<Rightarrow> auth_options \<Rightarrow> world \<Rightarrow> (js_error + bool) \<times> world" where
  "handleRedirectCallback net options w =
     (let clientId = default_clientId options w;
          redirectUri = default_redirectUri options w;
          url = location w;
          code = params_get (searchParams url) ''code'';
          state = params_get (searchParams url) ''state'';
          storedState = getItem LS_KEYS_state w
      in if \<not> truthy_str code then (Inr False, w)
         else if \<not> truthy_str state \<or> state \<noteq> storedState
         then (Inl (Error ''State mismatch''), w)
         else
           (case exchangeCodeForToken net (the code) clientId redirectUri w of
              (Inl e, w1) \<Rightarrow> (Inl e, w1)
            | (Inr u, w1) \<Rightarrow>
                (Inr True,
                 w1\<lparr>location := url\<lparr>searchParams :=
                       params_delete ''iss'' (params_delete ''state''
                         (params_delete ''code'' (searchParams url)))\<rparr>\<rparr>)))"

definition getValidAccessToken ::
  "network \<Rightarrow> auth_options \<Rightarrow> world \<Rightarrow> (js_error + string option) \<times> world" where
  "getValidAccessToken net options w =
     (let clientId = default_clientId options w;
          token = getStoredAccessToken w
      in if truthy_str token then (Inr token, w)
         else refreshAccessToken net clientId w)"

section \<open>spotifyApi: authorized requests and paginated fetchers\<close>

definition API_BASE :: string where
  "API_BASE = ''https://api.spotify.com/v1''"

text \<open>
  The second argument of \<^verbatim>\<open>apiFetch\<close>, spread into the \<^verbatim>\<open>fetch\<close> init object; its
  headers are merged over the two default headers, later entries winning.
\<close>

record fetch_options =
  fo_method :: "string option"
  fo_headers :: "(string \<times> string) list option"
  fo_body :: "(string \<times> string) list option"

definition no_fetch_options :: fetch_options where
  "no_fetch_options = \<lparr>fo_method = None, fo_headers = None, fo_body = None\<rparr>"

definition api_request :: "string \<Rightarrow> string \<Rightarrow> fetch_options \<Rightarrow> request" where
  "api_request token path options =
     \<lparr>req_url = API_BASE @ path,
      req_method = (case fo_method options of None \<Rightarrow> ''GET'' | Some m \<Rightarrow> m),
      req_headers =
        AList.merge
          [(''Authorization'', ''Bearer '' @ token), (''Content-Type'', ''application/json'')]
          (case fo_headers options of None \<Rightarrow> [] | Some hs \<Rightarrow> hs),
      req_body = fo_body options\<rparr>"

definition apiFetch ::
  "network \<Rightarrow> string \<Rightarrow> fetch_options \<Rightarrow> world \<Rightarrow> (js_error + api_json) \<times> world" where
  "apiFetch net path options w =
     (case getValidAccessToken net no_options w of
        (Inl e, w1) \<Rightarrow> (Inl e, w1)
      | (Inr token, w1) \<Rightarrow>
          if \<not> truthy_str token then (Inl (Error ''Not authenticated with Spotify''), w1)
          else
            (case fetch net (api_request (the token) path options) w1 of
               (Rejected, w2) \<Rightarrow> (Inl FetchFailed, w2)
             | (Responded res, w2) \<Rightarrow>
                 if status res = 401 then (Inl (Error ''Unauthorized''), w2)
                 else if \<not> ok res
                 then (Inl (Error (''Spotify API error '' @ js_String (int (status res))
                                   @ '': '' @ body_text res)), w2)
                 else (case body_json res of
                         None \<Rightarrow> (Inl BodyNotJson, w2)
                       | Some json \<Rightarrow> (Inr json, w2))))"

text \<open>\<^verbatim>\<open>s.replace(pat, rep)\<close> with a string pattern: the first occurrence only.\<close>

fun replace_first :: "string \<Rightarrow> string \<Rightarrow> string \<Rightarrow> string" where
  "replace_first pat rep [] = (if pat = [] then rep else [])"
| "replace_first pat rep (c # cs) =
     (if take (length pat) (c # cs) = pat then rep @ drop (length pat) (c # cs)
      else c # replace_first pat rep cs)"

text \<open>\<^verbatim>\<open>xs.map(f)\<close> where \<open>f\<close> may throw: the first exception ends the map.\<close>

fun map_throwing :: "('a \<Rightarrow> js_error + 'b) \<Rightarrow> 'a list \<Rightarrow> js_error + 'b list" where
  "map_throwing f [] = Inr []"
| "map_throwing f (x # xs) =
     (case f x of
        Inl e \<Rightarrow> Inl e
      | Inr y \<Rightarrow> (case map_throwing f xs of Inl e \<Rightarrow> Inl e | Inr ys \<Rightarrow> Inr (y # ys)))"

text \<open>
  The three fetchers run the same \<^verbatim>\<open>while (url)\<close> loop; they differ in the first URL
  and in whether the items of a page are mapped through \<^verbatim>\<open>sanitizeTrack\<close>. The loop is
  written once, with the mapper as an argument (\<open>Inr\<close> where the source pushes the
  items as they are). It has no bound: when the server never stops supplying a
  \<open>next\<close> pointer the loop does not return, which is the value \<open>None\<close>.
\<close>

text \<open>\<^verbatim>\<open>page.items || []\<close>: an array is truthy even when empty.\<close>

definition page_items :: "api_json \<Rightarrow> jsval list" where
  "page_items page = (case items page of None \<Rightarrow> [] | Some xs \<Rightarrow> xs)"

partial_function (option) pages_loop ::
  "network \<Rightarrow> (jsval \<Rightarrow> js_error + jsval) \<Rightarrow> string option \<Rightarrow> jsval list \<Rightarrow> world
     \<Rightarrow> ((js_error + jsval list) \<times> world) option" where
  "pages_loop net mapper url all w =
     (if \<not> truthy_str url then Some (Inr all, w)
      else
        (case apiFetch net (replace_first API_BASE [] (the url)) no_fetch_options w of
           (Inl e, w1) \<Rightarrow> Some (Inl e, w1)
         | (Inr page, w1) \<Rightarrow>
             (case map_throwing mapper (page_items page) of
                Inl e \<Rightarrow> Some (Inl e, w1)
              | Inr its \<Rightarrow> pages_loop net mapper (next page) (all @ its) w1)))"

text \<open>The first URL of each fetcher, a template literal over its \<open>limit\<close>.\<close>

definition playlists_url :: string where
  "playlists_url = ''/me/playlists?limit='' @ js_String 50"

definition saved_tracks_url :: string where
  "saved_tracks_url = ''/me/tracks?limit='' @ js_String 50"

definition getAllCurrentUserPlaylists ::
  "network \<Rightarrow> world \<Rightarrow> ((js_error + jsval list) \<times> world) option" where
  "getAllCurrentUserPlaylists net w = pages_loop net Inr (Some playlists_url) [] w"

text \<open>
  The two track fetchers map every item through \<^verbatim>\<open>sanitizeTrack\<close> of
  \<^verbatim>\<open>sanitize.js\<close>. The mapper is an argument of their model, so what is proved of
  them holds for \<^verbatim>\<open>sanitizeTrack\<close> as for every other mapper.
\<close>

definition getAllSavedTracks ::
  "network \<Rightarrow> (jsval \<Rightarrow> js_error + jsval) \<Rightarrow> world
     \<Rightarrow> ((js_error + jsval list) \<times> world) option" where
  "getAllSavedTracks net sanitizeTrack w =
     pages_loop net sanitizeTrack (Some saved_tracks_url) [] w"

text \<open>\<^verbatim>\<open>String(v)\<close> as a template literal or \<^verbatim>\<open>encodeURIComponent\<close> applies it.\<close>

fun intercalate :: "string \<Rightarrow> string list \<Rightarrow> string" where
  "intercalate sep [] = []"
| "intercalate sep [x] = x"
| "intercalate sep (x # y # ys) = x @ sep @ intercalate sep (y # ys)"

fun ToString :: "jsval \<Rightarrow> string" where
  "ToString JUndefined = ''undefined''"
| "ToString JNull = ''null''"
| "ToString (JBool b) = (if b then ''true'' else ''false'')"
| "ToString (JNum n) = js_String n"
| "ToString (JStr s) = s"
| "ToString (JArr xs) =
     intercalate '',''
       (map (\<lambda>x. if x = JUndefined \<or> x = JNull then [] else ToString x) xs)"
| "ToString (JObj kvs) = ''[object Object]''"

text \<open>
  \<^verbatim>\<open>encodeURIComponent\<close> on the UTF-8 bytes of the text: letters, digits and
  \<^verbatim>\<open>-_.!~*'()\<close> stay, every other byte becomes \<^verbatim>\<open>%XX\<close> in upper-case hex.
\<close>

definition unreserved :: "char \<Rightarrow> bool" where
  "unreserved c =
     (let n = (of_char c :: nat)
      in (65 \<le> n \<and> n \<le> 90) \<or> (97 \<le> n \<and> n \<le> 122) \<or> (48 \<le> n \<and> n \<le> 57)
         \<or> c \<in> set ''-_.!~*'()'')"

definition upper_hex_char :: "nat \<Rightarrow> char" where
  "upper_hex_char d = ''0123456789ABCDEF'' ! d"

definition percent_encode :: "char \<Rightarrow> string" where
  "percent_encode c =
     (if unreserved c then [c]
      else [CHR ''%'', upper_hex_char ((of_char c :: nat) div 16),
            upper_hex_char ((of_char c :: nat) mod 16)])"

definition encodeURIComponent :: "jsval \<Rightarrow> string" where
  "encodeURIComponent v = concat (map percent_encode (ToString v))"

definition tracks_url :: "jsval \<Rightarrow> string" where
  "tracks_url playlistId =
     ''/playlists/'' @ encodeURIComponent playlistId @ ''/tracks?limit='' @ js_String 100"

definition getAllPlaylistTracks ::
  "network \<Rightarrow> (jsval \<Rightarrow> js_error + jsval) \<Rightarrow> jsval \<Rightarrow> world
     \<Rightarrow> ((js_error + jsval list) \<times> world) option" where
  "getAllPlaylistTracks net sanitizeTrack playlistId w =
     pages_loop net sanitizeTrack (Some (tracks_url playlistId)) [] w"

subsection \<open>Objects and the collection assembler\<close>

text \<open>
  An object is the ordered list of its properties, names distinct. \<open>field v k\<close> is
  \<^verbatim>\<open>v.k\<close> on a value that is not \<^verbatim>\<open>null\<close>/\<^verbatim>\<open>undefined\<close> (a missing property and a
  property of a primitive or of an array are \<^verbatim>\<open>undefined\<close>); \<open>nullish\<close> tells where
  \<^verbatim>\<open>v.k\<close> throws instead and where \<^verbatim>\<open>v?.k\<close> is \<^verbatim>\<open>undefined\<close>.
\<close>

definition nullish :: "jsval \<Rightarrow> bool" where
  "nullish v = (v = JUndefined \<or> v = JNull)"

definition field :: "jsval \<Rightarrow> string \<Rightarrow> jsval" where
  "field v k =
     (case v of
        JObj kvs \<Rightarrow> (case map_of kvs k of None \<Rightarrow> JUndefined | Some x \<Rightarrow> x)
      | _ \<Rightarrow> JUndefined)"

definition opt_field :: "jsval \<Rightarrow> string \<Rightarrow> jsval" where
  "opt_field v k = (if nullish v then JUndefined else field v k)"

definition js_or :: "jsval \<Rightarrow> jsval \<Rightarrow> jsval" where
  "js_or a b = (if truthy a then a else b)"

definition LIKED_ID :: string where
  "LIKED_ID = ''liked-songs-virtual''"

definition liked_name :: string where
  "liked_name = ''liked songs '' @ [CHR 0xE2, CHR 0xAD, CHR 0x90]"

definition liked_raw :: jsval where
  "liked_raw = JObj [(''type'', JStr ''virtual''), (''source'', JStr ''liked_songs'')]"

definition liked_playlist :: "jsval list \<Rightarrow> jsval" where
  "liked_playlist liked =
     JObj [(''id'', JStr LIKED_ID),
           (''name'', JStr liked_name),
           (''owner'', JNull),
           (''tracks'', JArr liked),
           (''raw'', liked_raw)]"

definition named_playlist :: "jsval \<Rightarrow> jsval list \<Rightarrow> jsval" where
  "named_playlist p tracks =
     JObj [(''id'', field p ''id''),
           (''name'', field p ''name''),
           (''owner'',
              js_or (opt_field (field p ''owner'') ''display_name'')
                (js_or (opt_field (field p ''owner'') ''id'') JNull)),
           (''tracks'', JArr tracks),
           (''raw'',
              JObj [(''owner'',
                 if truthy (field p ''owner'')
                 then JObj [(''id'', js_or (field (field p ''owner'') ''id'') JNull),
                            (''display_name'',
                               js_or (field (field p ''owner'') ''display_name'') JNull)]
                 else JUndefined)])]"

text \<open>
  The \<^verbatim>\<open>for (const p of playlists)\<close> loop of \<^verbatim>\<open>getPlaylistsWithTracks\<close>, with the
  \<open>result\<close> array built so far. Reading \<^verbatim>\<open>p.id\<close> throws when \<open>p\<close> is
  \<^verbatim>\<open>null\<close>/\<^verbatim>\<open>undefined\<close>.
\<close>

fun playlists_loop ::
  "network \<Rightarrow> (jsval \<Rightarrow> js_error + jsval) \<Rightarrow> jsval list \<Rightarrow> jsval list \<Rightarrow> world
     \<Rightarrow> ((js_error + jsval list) \<times> world) option" where
  "playlists_loop net sanitizeTrack [] result w = Some (Inr result, w)"
| "playlists_loop net sanitizeTrack (p # ps) result w =
     (if nullish p then Some (Inl TypeError, w)
      else
        (case getAllPlaylistTracks net sanitizeTrack (field p ''id'') w of
           None \<Rightarrow> None
         | Some (Inl e, w1) \<Rightarrow> Some (Inl e, w1)
         | Some (Inr tracks, w1) \<Rightarrow>
             playlists_loop net sanitizeTrack ps (result @ [named_playlist p tracks]) w1))"

definition getPlaylistsWithTracks ::
  "network \<Rightarrow> (jsval \<Rightarrow> js_error + jsval) \<Rightarrow> world
     \<Rightarrow> ((js_error + jsval list) \<times> world) option" where
  "getPlaylistsWithTracks net sanitizeTrack w =
     (case getAllCurrentUserPlaylists net w of
        None \<Rightarrow> None
      | Some (Inl e, w1) \<Rightarrow> Some (Inl e, w1)
      | Some (Inr playlists, w1) \<Rightarrow>
          (case getAllSavedTracks net sanitizeTrack w1 of
             None \<Rightarrow> None
           | Some (Inl e, w2) \<Rightarrow> playlists_loop net sanitizeTrack playlists [] w2
           | Some (Inr liked, w2) \<Rightarrow>
               playlists_loop net sanitizeTrack playlists [liked_playlist liked] w2))"

section \<open>PKCE material\<close>

text \<open>
  \<^verbatim>\<open>byte.toString(16)\<close>, and \<^verbatim>\<open>('0' + byte.toString(16)).slice(-2)\<close>: the last two
  characters of the padded text.
\<close>

definition hex_char :: "nat \<Rightarrow> char" where
  "hex_char d = ''0123456789abcdef'' ! d"

fun toString16 :: "nat \<Rightarrow> string" where
  "toString16 n =
     (if n < 16 then [hex_char n] else toString16 (n div 16) @ [hex_char (n mod 16)])"

declare toString16.simps [simp del]

definition slice_last2 :: "string \<Rightarrow> string" where
  "slice_last2 s = drop (length s - 2) s"

definition hex2 :: "8 word \<Rightarrow> string" where
  "hex2 byte = slice_last2 (CHR ''0'' # toString16 (unat byte))"

text \<open>
  \<^verbatim>\<open>crypto.getRandomValues(array)\<close> fills the array with the next \<open>length\<close> bytes of
  the entropy stream.
\<close>

definition getRandomValues :: "nat \<Rightarrow> world \<Rightarrow> 8 word list \<times> world" where
  "getRandomValues len w =
     (map (entropy w) [drawn w ..< drawn w + len], w\<lparr>drawn := drawn w + len\<rparr>)"

definition generateRandomString :: "nat \<Rightarrow> world \<Rightarrow> string \<times> world" where
  "generateRandomString len w =
     (case getRandomValues len w of (array, w1) \<Rightarrow> (concat (map hex2 array), w1))"

text \<open>
  \<^verbatim>\<open>btoa(String.fromCharCode.apply(null, [...uint8]))\<close>: standard Base64 of the bytes,
  padded with \<^verbatim>\<open>=\<close>.
\<close>

definition b64_alphabet :: string where
  "b64_alphabet = ''ABCDEFGHIJKLMNOPQRSTUVWXYZabcdefghijklmnopqrstuvwxyz0123456789+/''"

definition b64_char :: "nat \<Rightarrow> char" where
  "b64_char n = b64_alphabet ! n"

fun btoa :: "8 word list \<Rightarrow> string" where
  "btoa [] = []"
| "btoa [a] =
     (let n = unat a
      in [b64_char (n div 4), b64_char (n mod 4 * 16), CHR ''='', CHR ''=''])"
| "btoa [a, b] =
     (let n = unat a * 256 + unat b
      in [b64_char (n div 1024), b64_char (n div 16 mod 64), b64_char (n mod 16 * 4),
          CHR ''=''])"
| "btoa (a # b # c # rest) =
     (let n = unat a * 65536 + unat b * 256 + unat c
      in [b64_char (n div 262144), b64_char (n div 4096 mod 64),
          b64_char (n div 64 mod 64), b64_char (n mod 64)] @ btoa rest)"

text \<open>\<^verbatim>\<open>s.replace(/c/g, d)\<close> for a single character, and \<^verbatim>\<open>s.replace(/=+$/, '')\<close>.\<close>

definition replace_char :: "char \<Rightarrow> char \<Rightarrow> string \<Rightarrow> string" where
  "replace_char c d s = map (\<lambda>x. if x = c then d else x) s"

definition strip_trailing_eq :: "string \<Rightarrow> string" where
  "strip_trailing_eq s = rev (dropWhile (\<lambda>x. x = CHR ''='') (rev s))"

definition uint8ToBase64Url :: "8 word list \<Rightarrow> string" where
  "uint8ToBase64Url uint8 =
     strip_trailing_eq (replace_char CHR ''/'' CHR ''_'' (replace_char CHR ''+'' CHR ''-''
       (btoa uint8)))"

text \<open>Both replacements of \<^verbatim>\<open>uint8ToBase64Url\<close>, on one character.\<close>

definition to_url :: "char \<Rightarrow> char" where
  "to_url x = (if (if x = CHR ''+'' then CHR ''-'' else x) = CHR ''/'' then CHR ''_''
               else (if x = CHR ''+'' then CHR ''-'' else x))"

text \<open>\<^verbatim>\<open>new TextEncoder().encode(input)\<close>: the UTF-8 bytes, which a string here is.\<close>

definition encode :: "string \<Rightarrow> 8 word list" where
  "encode input = map of_char input"

text \<open>
  \<^verbatim>\<open>crypto.subtle.digest('SHA-256', data)\<close> is the platform's; the hash function is
  an argument, written \<open>sha256\<close>.
\<close>

definition sha256Base64Url :: "(8 word list \<Rightarrow> 8 word list) \<Rightarrow> string \<Rightarrow> string" where
  "sha256Base64Url sha256 input = uint8ToBase64Url (sha256 (encode input))"

definition DEFAULT_SCOPES :: string where
  "DEFAULT_SCOPES = ''playlist-read-private playlist-read-collaborative user-library-read''"

definition AUTHORIZE_ENDPOINT :: string where
  "AUTHORIZE_ENDPOINT = ''https://accounts.spotify.com/authorize''"

text \<open>
  \<^verbatim>\<open>beginLogin\<close>. The navigation is recorded with its query as the list of pairs given
  to \<^verbatim>\<open>URLSearchParams\<close>, before serialisation.
\<close>

definition beginLogin ::
  "(8 word list \<Rightarrow> 8 word list) \<Rightarrow> auth_options \<Rightarrow> world \<Rightarrow> (js_error + unit) \<times> world" where
  "beginLogin sha256 options w =
     (let clientId = default_clientId options w;
          scopes = (case opt_scopes options of None \<Rightarrow> DEFAULT_SCOPES | Some s \<Rightarrow> s);
          redirectUri = default_redirectUri options w
      in if \<not> truthy_str clientId then (Inl (Error ''Missing VITE_SPOTIFY_CLIENT_ID''), w)
         else
           (case generateRandomString 64 w of
              (codeVerifier, w1) \<Rightarrow>
                let codeChallenge = sha256Base64Url sha256 codeVerifier in
                (case generateRandomString 16 w1 of
                   (state, w2) \<Rightarrow>
                     (case setItem LS_KEYS_codeVerifier codeVerifier w2 of
                        Inl e \<Rightarrow> (Inl e, w2)
                      | Inr w3 \<Rightarrow>
                          (case setItem LS_KEYS_state state w3 of
                             Inl e \<Rightarrow> (Inl e, w3)
                           | Inr w4 \<Rightarrow>
                               (Inr (),
                                w4\<lparr>assigned := Some
                                  \<lparr>nav_target = AUTHORIZE_ENDPOINT,
                                   nav_query =
                                     [(''response_type'', ''code''),
                                      (''client_id'', the clientId),
                                      (''scope'', scopes),
                                      (''redirect_uri'', str_of redirectUri),
                                      (''code_challenge_method'', ''S256''),
                                      (''code_challenge'', codeChallenge),
                                      (''state'', state)]\<rparr>\<rparr>))))))"

text \<open>
  Base64url as RFC 4648 section 5 defines it, without padding: the alphabet ends in
  \<^verbatim>\<open>-\<close> and \<^verbatim>\<open>_\<close>, three bytes give four characters, a last group of one or two bytes
  gives two or three. This is the encoding the specification names; it is written
  from the RFC, not from \<^verbatim>\<open>uint8ToBase64Url\<close>.
\<close>

definition b64url_alphabet :: string where
  "b64url_alphabet = ''ABCDEFGHIJKLMNOPQRSTUVWXYZabcdefghijklmnopqrstuvwxyz0123456789-_''"

definition b64url_char :: "nat \<Rightarrow> char" where
  "b64url_char n = b64url_alphabet ! n"

fun base64url_spec :: "8 word list \<Rightarrow> string" where
  "base64url_spec [] = []"
| "base64url_spec [a] =
     (let n = unat a in [b64url_char (n div 4), b64url_char (n mod 4 * 16)])"
| "base64url_spec [a, b] =
     (let n = unat a * 256 + unat b
      in [b64url_char (n div 1024), b64url_char (n div 16 mod 64),
          b64url_char (n mod 16 * 4)])"
| "base64url_spec (a # b # c # rest) =
     (let n = unat a * 65536 + unat b * 256 + unat c
      in [b64url_char (n div 262144), b64url_char (n div 4096 mod 64),
          b64url_char (n div 64 mod 64), b64url_char (n mod 64)] @ base64url_spec rest)"

text \<open>A text ends in \<^verbatim>\<open>=\<close>.\<close>

definition trailing_eq :: "string \<Rightarrow> bool" where
  "trailing_eq s = (s \<noteq> [] \<and> last s = CHR ''='')"

section \<open>cacheDb: the playlists cache\<close>

definition PLAYLISTS_KEY :: string where
  "PLAYLISTS_KEY = ''playlistsWithTracks''"

definition BACKUP_KEY :: string where
  "BACKUP_KEY = ''playlistory_cache_backup_v1''"

text \<open>
  The object store \<^verbatim>\<open>cache\<close> has key path \<^verbatim>\<open>key\<close>: \<^verbatim>\<open>put\<close> files a record under
  its own key, \<^verbatim>\<open>get\<close> yields the record or \<^verbatim>\<open>undefined\<close>, turned into \<^verbatim>\<open>null\<close>.
\<close>

definition getRecord :: "string \<Rightarrow> world \<Rightarrow> js_error + cache_record option" where
  "getRecord key w = (if idb_fails w then Inl IdbError else Inr (idb w key))"

definition putRecord :: "cache_record \<Rightarrow> world \<Rightarrow> js_error + world" where
  "putRecord record w =
     (if idb_fails w then Inl IdbError
      else Inr (w\<lparr>idb := (idb w)(rec_key record \<mapsto> record)\<rparr>))"

definition clearAll :: "world \<Rightarrow> js_error + world" where
  "clearAll w = (if idb_fails w then Inl IdbError else Inr (w\<lparr>idb := Map.empty\<rparr>))"

definition user_summary :: "jsval \<Rightarrow> jsval" where
  "user_summary user =
     (if truthy user
      then JObj [(''id'', js_or (field user ''id'') JNull),
                 (''display_name'', js_or (field user ''display_name'') JNull)]
      else JNull)"

definition make_record :: "jsval \<Rightarrow> jsval \<Rightarrow> world \<Rightarrow> cache_record" where
  "make_record playlists user w =
     \<lparr>rec_key = PLAYLISTS_KEY, rec_data = playlists, rec_user = user_summary user,
      rec_createdAt = int (now w)\<rparr>"

definition backup_of :: "cache_record \<Rightarrow> jsval" where
  "backup_of record =
     JObj [(''data'', rec_data record),
           (''user'', js_or (rec_user record) JNull),
           (''createdAt'', JNum (rec_createdAt record))]"

text \<open>What \<^verbatim>\<open>loadPlaylistsCache\<close> resolves to when it is not \<^verbatim>\<open>null\<close>.\<close>

record cached =
  c_playlists :: jsval
  c_user :: jsval
  c_createdAt :: jsval

text \<open>
  The cache with the \<^verbatim>\<open>localStorage\<close> backup. \<^verbatim>\<open>JSON.stringify\<close> and
  \<^verbatim>\<open>JSON.parse\<close> are the platform's and are arguments; a text that does not parse is
  \<open>None\<close>. The \<^verbatim>\<open>try\<close> around the backup write swallows a throwing \<^verbatim>\<open>setItem\<close>.
\<close>

definition savePlaylistsCache ::
  "(jsval \<Rightarrow> string) \<Rightarrow> jsval \<Rightarrow> jsval \<Rightarrow> world \<Rightarrow> (js_error + int) \<times> world" where
  "savePlaylistsCache stringify playlists user w =
     (let record = make_record playlists user w in
      case putRecord record w of
        Inl e \<Rightarrow> (Inl e, w)
      | Inr w1 \<Rightarrow>
          (case setItem BACKUP_KEY (stringify (backup_of record)) w1 of
             Inl e \<Rightarrow> (Inr (rec_createdAt record), w1)
           | Inr w2 \<Rightarrow> (Inr (rec_createdAt record), w2)))"

definition loadPlaylistsCache ::
  "(string \<Rightarrow> jsval option) \<Rightarrow> world \<Rightarrow> js_error + cached option" where
  "loadPlaylistsCache parse w =
     (case getRecord PLAYLISTS_KEY w of
        Inl e \<Rightarrow> Inl e
      | Inr (Some record) \<Rightarrow>
          Inr (Some \<lparr>c_playlists = rec_data record,
                     c_user = js_or (rec_user record) JNull,
                     c_createdAt = JNum (rec_createdAt record)\<rparr>)
      | Inr None \<Rightarrow>
          (let raw = getItem BACKUP_KEY w in
           if truthy_str raw then
             (case parse (the raw) of
                None \<Rightarrow> Inr None
              | Some parsed \<Rightarrow>
                  if truthy parsed \<and> truthy (field parsed ''data'')
                  then Inr (Some \<lparr>c_playlists = field parsed ''data'',
                                  c_user = js_or (field parsed ''user'') JNull,
                                  c_createdAt = js_or (field parsed ''createdAt'') JNull\<rparr>)
                  else Inr None)
           else Inr None))"

definition purgeCache :: "world \<Rightarrow> (js_error + unit) \<times> world" where
  "purgeCache w =
     (case clearAll w of
        Inl e \<Rightarrow> (Inl e, w)
      | Inr w1 \<Rightarrow> (Inr (), removeItem BACKUP_KEY w1))"

text \<open>
  The copy of the module in \<^verbatim>\<open>src/cacheDb.js\<close> has the same names and no backup:
  it reads and writes IndexedDB only. Its functions carry the suffix \<open>_idb\<close>.
\<close>

definition savePlaylistsCache_idb :: "jsval \<Rightarrow> jsval \<Rightarrow> world \<Rightarrow> (js_error + int) \<times> world" where
  "savePlaylistsCache_idb playlists user w =
     (let record = make_record playlists user w in
      case putRecord record w of
        Inl e \<Rightarrow> (Inl e, w)
      | Inr w1 \<Rightarrow> (Inr (rec_createdAt record), w1))"

definition loadPlaylistsCache_idb :: "world \<Rightarrow> js_error + cached option" where
  "loadPlaylistsCache_idb w =
     (case getRecord PLAYLISTS_KEY w of
        Inl e \<Rightarrow> Inl e
      | Inr None \<Rightarrow> Inr None
      | Inr (Some record) \<Rightarrow>
          Inr (Some \<lparr>c_playlists = rec_data record,
                     c_user = js_or (rec_user record) JNull,
                     c_createdAt = JNum (rec_createdAt record)\<rparr>))"

section \<open>Servers and page chains\<close>

text \<open>
  The vocabulary in which the pagination properties are stated. \<open>page_request\<close> is the
  request the loop issues for a URL with a usable token; \<open>page_requests\<close> lists the
  requests a chain of pages costs, each URL after the first being the \<open>next\<close> pointer
  of the page before. \<open>serves net token prior url pages\<close> says that the network, having
  seen \<open>prior\<close>, answers the loop started at \<open>url\<close> with exactly the pages given: each
  request is answered with a success status and the next page as its JSON body, every
  page but the last has a truthy \<open>next\<close>, the last has none. \<open>scripted\<close> is the
  network that answers the \<open>n\<close>-th request it sees with the \<open>n\<close>-th entry of a script
  and fails afterwards.
\<close>

definition page_request :: "string \<Rightarrow> string \<Rightarrow> request" where
  "page_request token url =
     api_request token (replace_first API_BASE [] url) no_fetch_options"

fun page_requests :: "string \<Rightarrow> string \<Rightarrow> api_json list \<Rightarrow> request list" where
  "page_requests token url [] = []"
| "page_requests token url (p # ps) =
     page_request token url
       # (case next p of None \<Rightarrow> [] | Some u \<Rightarrow> page_requests token u ps)"

fun serves :: "network \<Rightarrow> string \<Rightarrow> request list \<Rightarrow> string \<Rightarrow> api_json list \<Rightarrow> bool" where
  "serves net token prior url [] = False"
| "serves net token prior url (p # ps) =
     (url \<noteq> []
      \<and> (case net prior (page_request token url) of
            Rejected \<Rightarrow> False
          | Responded res \<Rightarrow> ok res \<and> body_json res = Some p)
      \<and> (case next p of
            None \<Rightarrow> ps = []
          | Some u \<Rightarrow>
              if u = [] then ps = []
              else ps \<noteq> [] \<and> serves net token (prior @ [page_request token url]) u ps))"

definition scripted :: "fetch_result list \<Rightarrow> network" where
  "scripted script = (\<lambda>prior req. if length prior < length script then script ! length prior
                                else Rejected)"

definition ok_json :: "api_json \<Rightarrow> fetch_result" where
  "ok_json json = Responded \<lparr>status = 200, body_text = [], body_json = Some json\<rparr>"

section \<open>Example environments\<close>

text \<open>Concrete worlds and servers on which the properties below are exercised.\<close>

definition offline :: network where
  "offline = (\<lambda>prior req. Rejected)"

definition answering :: "response \<Rightarrow> network" where
  "answering res = (\<lambda>prior req. Responded res)"

text \<open>
  The conversion the example worlds carry. On the empty text and on optionally signed
  decimal digit strings of a value below \<open>2^53\<close> it answers what \<^verbatim>\<open>Number\<close> answers,
  and the example worlds store no other text under the expiry key. On every other
  text it answers \<open>NaN\<close>, which need not be what \<^verbatim>\<open>Number\<close> answers: it stands for
  \<^verbatim>\<open>Number\<close> on the texts named only, and the properties are proved for every
  conversion a world may carry.
\<close>

definition digit_val :: "char \<Rightarrow> nat option" where
  "digit_val c =
     (let n = (of_char c :: nat)
      in if 48 \<le> n \<and> n \<le> 57 then Some (n - 48) else None)"

fun digits_val :: "nat \<Rightarrow> string \<Rightarrow> nat option" where
  "digits_val acc [] = Some acc"
| "digits_val acc (c # cs) =
     (case digit_val c of None \<Rightarrow> None | Some d \<Rightarrow> digits_val (10 * acc + d) cs)"

definition decimal_Number :: "string \<Rightarrow> js_num" where
  "decimal_Number s =
     (case s of
        [] \<Rightarrow> Num 0
      | c # cs \<Rightarrow>
          if c = CHR ''-'' \<or> c = CHR ''+'' then
            (if cs = [] then NaN
             else case digits_val 0 cs of
                    None \<Rightarrow> NaN
                  | Some n \<Rightarrow> Num (if c = CHR ''-'' then - real n else real n))
          else (case digits_val 0 s of None \<Rightarrow> NaN | Some n \<Rightarrow> Num (real n)))"

definition page_load :: world where
  "page_load =
     \<lparr>localStorage = Map.empty, storage_full = False, now = 1700000000000, requests = [],
      location = \<lparr>origin = ''https://app.example'', pathname = ''/'', searchParams = [],
                  hash = []\<rparr>,
      assigned = None, entropy = (\<lambda>i. of_nat i), drawn = 0, idb = Map.empty,
      idb_fails = False,
      import_meta_env = \<lparr>VITE_SPOTIFY_CLIENT_ID = Some ''abc'',
                         VITE_SPOTIFY_REDIRECT_URI = None\<rparr>,
      js_Number = decimal_Number\<rparr>"

definition with_query :: "(string \<times> string) list \<Rightarrow> world \<Rightarrow> world" where
  "with_query q w = w\<lparr>location := (location w)\<lparr>searchParams := q\<rparr>\<rparr>"

definition with_items :: "(string \<times> string) list \<Rightarrow> world \<Rightarrow> world" where
  "with_items kvs w = w\<lparr>localStorage := map_of kvs\<rparr>"

definition at_time :: "nat \<Rightarrow> world \<Rightarrow> world" where
  "at_time t w = w\<lparr>now := t\<rparr>"

definition token_json :: "string option \<Rightarrow> int option \<Rightarrow> string option \<Rightarrow> api_json" where
  "token_json a e r =
     \<lparr>access_token = a, expires_in = e, refresh_token = r, items = None, next = None\<rparr>"

definition page_json :: "jsval list option \<Rightarrow> string option \<Rightarrow> api_json" where
  "page_json its nxt =
     \<lparr>access_token = None, expires_in = None, refresh_token = None, items = its, next = nxt\<rparr>"

text \<open>A return from the provider whose \<open>state\<close> is not the stored one.\<close>

definition forged_callback :: world where
  "forged_callback =
     with_query [(''code'', ''AQB''), (''state'', ''evil'')]
       (with_items [(LS_KEYS_state, ''good''), (LS_KEYS_codeVerifier, ''v'')] page_load)"

text \<open>The address \<^verbatim>\<open>https://app.example/?code=&state=evil\<close>.\<close>

definition empty_code_callback :: world where
  "empty_code_callback =
     with_query [(''code'', []), (''state'', ''evil'')]
       (with_items [(LS_KEYS_state, ''good'')] page_load)"

text \<open>
  A session whose access token expires at 1700003600000; the clock of \<open>signed_in\<close>
  is an hour before that, the clock of \<open>expired\<close> ten seconds before.
\<close>

definition signed_in :: world where
  "signed_in =
     with_items [(LS_KEYS_token, ''tok''), (LS_KEYS_tokenExpiry, ''1700003600000''),
                 (LS_KEYS_refreshToken, ''r1'')] page_load"

definition expired :: world where
  "expired = at_time 1700003590000 signed_in"

definition expired_no_refresh :: world where
  "expired_no_refresh =
     at_time 1700003590000
       (with_items [(LS_KEYS_token, ''tok''), (LS_KEYS_tokenExpiry, ''1700003600000'')]
          page_load)"

text \<open>
  Two pages of a playlist listing, a small mapper in the place of \<^verbatim>\<open>sanitizeTrack\<close>
  that keeps a track's name, two playlists and a saved track, a failing answer, and three servers:
  one where the liked-songs fetch fails, one where the first playlist's tracks fail,
  one where every fetch is answered. \<open>logged rs\<close> is the signed-in world after the
  requests \<open>rs\<close>.
\<close>

definition two_pages :: "api_json list" where
  "two_pages =
     [page_json (Some [JStr ''a'', JStr ''b''])
        (Some ''https://api.spotify.com/v1/me/playlists?offset=50&limit=50''),
      page_json (Some [JStr ''c'']) None]"

definition track_name :: "jsval \<Rightarrow> js_error + jsval" where
  "track_name item =
     (if nullish item then Inl TypeError
      else Inr (JObj [(''name'', field (field item ''track'') ''name'')]))"

definition mix :: jsval where
  "mix = JObj [(''id'', JStr ''p1''), (''name'', JStr ''Mix'')]"

definition jam :: jsval where
  "jam = JObj [(''id'', JStr ''p2''), (''name'', JStr ''Jam'')]"

definition song :: jsval where
  "song = JObj [(''track'', JObj [(''name'', JStr ''Song'')])]"

definition boom :: fetch_result where
  "boom = Responded \<lparr>status = 500, body_text = ''boom'', body_json = None\<rparr>"

definition logged :: "request list \<Rightarrow> world" where
  "logged rs = signed_in\<lparr>requests := rs\<rparr>"

definition liked_fails :: network where
  "liked_fails =
     scripted [ok_json (page_json (Some [mix]) None), boom,
               ok_json (page_json (Some [song]) None)]"

definition tracks_fail :: network where
  "tracks_fail =
     scripted [ok_json (page_json (Some [mix, jam]) None),
               ok_json (page_json (Some [song]) None), boom]"

definition all_served :: network where
  "all_served =
     scripted [ok_json (page_json (Some [mix]) None),
               ok_json (page_json (Some [song]) None),
               ok_json (page_json (Some [song]) None)]"

text \<open>
  A stand-in for the digest (the first 32 bytes of the data), a stand-in JSON codec
  that writes one fixed text and reads it back as a given value, a library and a user
  to cache, the world after the browser has evicted IndexedDB, and a world whose
  \<^verbatim>\<open>localStorage\<close> rejects every write.
\<close>

definition first32 :: "8 word list \<Rightarrow> 8 word list" where
  "first32 data = take 32 data"

definition stub_stringify :: "jsval \<Rightarrow> string" where
  "stub_stringify v = ''<backup>''"

definition stub_parse :: "jsval \<Rightarrow> string \<Rightarrow> jsval option" where
  "stub_parse v s = (if s = ''<backup>'' then Some v else None)"

definition library :: jsval where
  "library = JArr [JObj [(''id'', JStr ''p1''), (''name'', JStr ''Mix''), (''tracks'', JArr [])]]"

definition ann :: jsval where
  "ann = JObj [(''id'', JStr ''u1''), (''display_name'', JStr ''Ann'')]"

definition evicted :: "world \<Rightarrow> world" where
  "evicted w = w\<lparr>idb := Map.empty\<rparr>"

definition full_storage :: world where
  "full_storage = page_load\<lparr>storage_full := True\<rparr>"

section \<open>Properties\<close>

lemmas eval_defs =
  signed_in_def expired_def expired_no_refresh_def forged_callback_def
  empty_code_callback_def with_items_def with_query_def page_load_def at_time_def
  getItem_def LS_KEYS_token_def LS_KEYS_tokenExpiry_def LS_KEYS_refreshToken_def
  LS_KEYS_state_def LS_KEYS_codeVerifier_def stored_expiry_def decimal_Number_def
  digit_val_def truthy_str_def truthy_num_def js_minus_def ge_num_def
  getStoredAccessToken_def params_get_def

subsection \<open>The redirect callback\<close>

text \<open>
  C9. For every URL without a \<open>code\<close> query parameter, \<open>handleRedirectCallback\<close>
  returns \<open>false\<close> and leaves the world as it was: no error, nothing fetched, nothing
  stored, the visible URL untouched.
\<close>

theorem handleRedirectCallback_no_code:
  "params_get (searchParams (location w)) ''code'' = None \<Longrightarrow>
   handleRedirectCallback net options w = (Inr False, w)"
  by (simp add: handleRedirectCallback_def truthy_str_def Let_def)

theorem handleRedirectCallback_no_code_witness:
  "params_get (searchParams (location (with_query [(''tab'', ''stats'')] page_load))) ''code''
     = None
   \<and> handleRedirectCallback offline no_options (with_query [(''tab'', ''stats'')] page_load)
     = (Inr False, with_query [(''tab'', ''stats'')] page_load)"
  using handleRedirectCallback_no_code
    [of "with_query [(''tab'', ''stats'')] page_load" offline no_options]
  by (simp add: with_query_def page_load_def params_get_def)

text \<open>
  C1, as the code has it. When the URL carries a non-empty \<open>code\<close> and its \<open>state\<close>
  is absent or differs from the stored OAuth state, \<open>handleRedirectCallback\<close> throws
  \<^verbatim>\<open>Error('State mismatch')\<close> and the world is unchanged: no request was issued and
  no stored entry was written.
\<close>

theorem handleRedirectCallback_state_mismatch:
  "truthy_str (params_get (searchParams (location w)) ''code'') \<Longrightarrow>
   params_get (searchParams (location w)) ''state'' = None
     \<or> params_get (searchParams (location w)) ''state'' \<noteq> getItem LS_KEYS_state w \<Longrightarrow>
   handleRedirectCallback net options w = (Inl (Error ''State mismatch''), w)"
  by (auto simp add: handleRedirectCallback_def truthy_str_def Let_def)

theorem handleRedirectCallback_state_mismatch_witness:
  "truthy_str (params_get (searchParams (location forged_callback)) ''code'')
   \<and> params_get (searchParams (location forged_callback)) ''state''
       \<noteq> getItem LS_KEYS_state forged_callback
   \<and> handleRedirectCallback offline no_options forged_callback
       = (Inl (Error ''State mismatch''), forged_callback)"
proof -
  have c: "truthy_str (params_get (searchParams (location forged_callback)) ''code'')"
    by (simp add: eval_defs)
  have s: "params_get (searchParams (location forged_callback)) ''state''
             \<noteq> getItem LS_KEYS_state forged_callback"
    by (simp add: eval_defs)
  from c s handleRedirectCallback_state_mismatch [of forged_callback offline no_options]
  show ?thesis by simp
qed

text \<open>
  C1, as the claim words it, fails where the \<open>code\<close> parameter is present and empty:
  the guard \<^verbatim>\<open>if (!code) return false\<close> comes first, so a mismatching \<open>state\<close> is
  not reported.
\<close>

theorem handleRedirectCallback_empty_code_counterexample:
  "params_get (searchParams (location empty_code_callback)) ''code'' = Some []
   \<and> params_get (searchParams (location empty_code_callback)) ''state''
       \<noteq> getItem LS_KEYS_state empty_code_callback
   \<and> handleRedirectCallback offline no_options empty_code_callback
       = (Inr False, empty_code_callback)"
  by (simp add: handleRedirectCallback_def eval_defs Let_def)

subsection \<open>Stored tokens\<close>

lemma setItem_other:
  "setItem k v w = Inr w' \<Longrightarrow> k \<noteq> k' \<Longrightarrow> getItem k' w' = getItem k' w"
  by (auto simp: setItem_def getItem_def split: if_splits)

lemma setItem_requests: "setItem k v w = Inr w' \<Longrightarrow> requests w' = requests w"
  by (auto simp: setItem_def split: if_splits)

lemma refresh_key_distinct:
  "LS_KEYS_token \<noteq> LS_KEYS_refreshToken" "LS_KEYS_tokenExpiry \<noteq> LS_KEYS_refreshToken"
  by (simp_all add: LS_KEYS_token_def LS_KEYS_refreshToken_def LS_KEYS_tokenExpiry_def)

lemma storeTokenResponse_requests:
  "storeTokenResponse json w = (x, w') \<Longrightarrow> requests w' = requests w"
  by (auto simp: storeTokenResponse_def Let_def dest!: setItem_requests
           split: sum.splits if_splits)

lemma storeTokenResponse_succeeds:
  "\<not> storage_full w \<Longrightarrow> fst (storeTokenResponse json w) = Inr ()"
  by (auto simp: storeTokenResponse_def Let_def setItem_def split: sum.splits if_splits)

lemma refreshAccessToken_requests:
  "getItem LS_KEYS_refreshToken w = Some r \<Longrightarrow> r \<noteq> [] \<Longrightarrow>
   requests (snd (refreshAccessToken net cid w))
     = requests w @ [token_request (refresh_body r cid)]"
  by (auto simp: refreshAccessToken_def fetch_def truthy_str_def Let_def
           dest: storeTokenResponse_requests
           split: fetch_result.splits option.splits prod.splits sum.splits)

text \<open>
  C8. When a token response omits \<open>refresh_token\<close>, storing it leaves the stored
  refresh token as it was, neither overwritten nor removed, whether or not the other
  writes succeed.
\<close>

theorem storeTokenResponse_keeps_refresh_token:
  "refresh_token json = None \<Longrightarrow>
   getItem LS_KEYS_refreshToken (snd (storeTokenResponse json w))
     = getItem LS_KEYS_refreshToken w"
  by (auto simp: storeTokenResponse_def Let_def refresh_key_distinct truthy_str_def
           dest!: setItem_other [where k' = LS_KEYS_refreshToken]
           split: sum.splits if_splits)

theorem storeTokenResponse_keeps_refresh_token_witness:
  "refresh_token (token_json (Some ''tok2'') (Some 3600) None) = None
   \<and> getItem LS_KEYS_refreshToken signed_in = Some ''r1''
   \<and> getItem LS_KEYS_refreshToken
        (snd (storeTokenResponse (token_json (Some ''tok2'') (Some 3600) None) signed_in))
       = Some ''r1''"
  using storeTokenResponse_keeps_refresh_token
    [of "token_json (Some ''tok2'') (Some 3600) None" signed_in]
  by (simp add: token_json_def eval_defs)

text \<open>
  C2, as the code has it. \<open>getValidAccessToken\<close> (i) returns the stored access token,
  touching nothing, whenever \<open>now < storedExpiry - 30000\<close>, also for an infinite
  expiry; (ii) a stored expiry with \<open>storedExpiry - 30000 \<le> now\<close> makes the stored
  token unusable; with no usable stored token, (iii) it returns \<open>null\<close> and issues no
  request when no refresh token is stored, and (iv) when a refresh token is stored it
  issues exactly one request, the \<open>grant_type=refresh_token\<close> call to the token
  endpoint, whatever the outcome. It then returns \<open>null\<close> without throwing when the
  answer has a non-success status; when the answer has a success status and a JSON
  body and the storage accepts writes, it returns the body's access token, or
  \<open>null\<close> when the body carries none. It throws when the request is rejected, when
  the body of a success answer is not JSON, and when the answer carries an access
  token that \<^verbatim>\<open>localStorage\<close> refuses to store.
\<close>

theorem getValidAccessToken_cases:
  "(getItem LS_KEYS_token w = Some t \<and> t \<noteq> []
      \<and> (stored_expiry w = Num e \<and> real (now w) < e - 30000 \<or> stored_expiry w = Infinity)
     \<longrightarrow> getValidAccessToken net options w = (Inr (Some t), w))
   \<and> (stored_expiry w = Num e \<and> e - 30000 \<le> real (now w)
     \<longrightarrow> getStoredAccessToken w = None)
   \<and> (getStoredAccessToken w = None \<and> \<not> truthy_str (getItem LS_KEYS_refreshToken w)
     \<longrightarrow> getValidAccessToken net options w = (Inr None, w))
   \<and> (getStoredAccessToken w = None \<and> getItem LS_KEYS_refreshToken w = Some r \<and> r \<noteq> []
     \<longrightarrow>
       requests (snd (getValidAccessToken net options w))
         = requests w @ [token_request (refresh_body r (default_clientId options w))]
       \<and> (net (requests w) (token_request (refresh_body r (default_clientId options w)))
              = Responded res
            \<and> \<not> ok res \<longrightarrow>
           getValidAccessToken net options w
             = (Inr None,
                w\<lparr>requests := requests w
                     @ [token_request (refresh_body r (default_clientId options w))]\<rparr>))
       \<and> (net (requests w) (token_request (refresh_body r (default_clientId options w)))
              = Responded res
            \<and> ok res \<and> body_json res = Some json \<and> \<not> storage_full w \<longrightarrow>
           fst (getValidAccessToken net options w)
             = Inr (if truthy_str (access_token json) then access_token json else None))
       \<and> (net (requests w) (token_request (refresh_body r (default_clientId options w)))
              = Rejected \<longrightarrow>
           getValidAccessToken net options w
             = (Inl FetchFailed,
                w\<lparr>requests := requests w
                     @ [token_request (refresh_body r (default_clientId options w))]\<rparr>))
       \<and> (net (requests w) (token_request (refresh_body r (default_clientId options w)))
              = Responded res
            \<and> ok res \<and> body_json res = None \<longrightarrow>
           getValidAccessToken net options w
             = (Inl BodyNotJson,
                w\<lparr>requests := requests w
                     @ [token_request (refresh_body r (default_clientId options w))]\<rparr>))
       \<and> (net (requests w) (token_request (refresh_body r (default_clientId options w)))
              = Responded res
            \<and> ok res \<and> body_json res = Some json \<and> truthy_str (access_token json)
            \<and> storage_full w \<longrightarrow>
           getValidAccessToken net options w
             = (Inl QuotaExceeded,
                w\<lparr>requests := requests w
                     @ [token_request (refresh_body r (default_clientId options w))]\<rparr>)))"
  (is "?A \<and> ?B \<and> ?C \<and> ?D")
proof (intro conjI)
  show ?A
    by (auto simp: getValidAccessToken_def getStoredAccessToken_def truthy_str_def
          truthy_num_def js_minus_def ge_num_def Let_def)
  show ?B
    by (auto simp: getStoredAccessToken_def js_minus_def ge_num_def Let_def)
  show ?C
    by (auto simp: getValidAccessToken_def refreshAccessToken_def truthy_str_def Let_def)
  show ?D
  proof (intro impI, elim conjE)
    assume none: "getStoredAccessToken w = None"
      and r: "getItem LS_KEYS_refreshToken w = Some r" "r \<noteq> []"
    let ?req = "token_request (refresh_body r (default_clientId options w))"
    let ?w1 = "w\<lparr>requests := requests w @ [?req]\<rparr>"
    have gv: "getValidAccessToken net options w
                = refreshAccessToken net (default_clientId options w) w"
      using none by (simp add: getValidAccessToken_def truthy_str_def Let_def)
    have 1: "requests (snd (getValidAccessToken net options w)) = requests w @ [?req]"
      using r by (simp add: gv refreshAccessToken_requests)
    have 2: "net (requests w) ?req = Responded res \<and> \<not> ok res \<longrightarrow>
       getValidAccessToken net options w = (Inr None, ?w1)"
      using r by (simp add: gv refreshAccessToken_def fetch_def truthy_str_def Let_def)
    have 3: "net (requests w) ?req = Responded res \<and> ok res \<and> body_json res = Some json
          \<and> \<not> storage_full w \<longrightarrow>
         fst (getValidAccessToken net options w)
           = Inr (if truthy_str (access_token json) then access_token json else None)"
    proof (intro impI, elim conjE)
      assume h: "net (requests w) ?req = Responded res" "ok res" "body_json res = Some json"
        "\<not> storage_full w"
      have "fst (storeTokenResponse json ?w1) = Inr ()"
        using h(4) by (simp add: storeTokenResponse_succeeds)
      then obtain w2 where "storeTokenResponse json ?w1 = (Inr (), w2)"
        by (cases "storeTokenResponse json ?w1") auto
      then show "fst (getValidAccessToken net options w)
           = Inr (if truthy_str (access_token json) then access_token json else None)"
        using r h by (simp add: gv refreshAccessToken_def fetch_def truthy_str_def Let_def)
    qed
    have 4: "net (requests w) ?req = Rejected \<longrightarrow>
       getValidAccessToken net options w = (Inl FetchFailed, ?w1)"
      using r by (simp add: gv refreshAccessToken_def fetch_def truthy_str_def Let_def)
    have 5: "net (requests w) ?req = Responded res \<and> ok res \<and> body_json res = None \<longrightarrow>
       getValidAccessToken net options w = (Inl BodyNotJson, ?w1)"
      using r by (simp add: gv refreshAccessToken_def fetch_def truthy_str_def Let_def)
    have 6: "net (requests w) ?req = Responded res \<and> ok res \<and> body_json res = Some json
          \<and> truthy_str (access_token json) \<and> storage_full w \<longrightarrow>
       getValidAccessToken net options w = (Inl QuotaExceeded, ?w1)"
    proof (intro impI, elim conjE)
      assume h: "net (requests w) ?req = Responded res" "ok res" "body_json res = Some json"
        "truthy_str (access_token json)" "storage_full w"
      have "storeTokenResponse json ?w1 = (Inl QuotaExceeded, ?w1)"
        using h(4,5) by (simp add: storeTokenResponse_def setItem_def Let_def)
      then show "getValidAccessToken net options w = (Inl QuotaExceeded, ?w1)"
        using r h by (simp add: gv refreshAccessToken_def fetch_def truthy_str_def Let_def)
    qed
    from 1 2 3 4 5 6
    show "requests (snd (getValidAccessToken net options w)) = requests w @ [?req]
       \<and> (net (requests w) ?req = Responded res \<and> \<not> ok res \<longrightarrow>
           getValidAccessToken net options w = (Inr None, ?w1))
       \<and> (net (requests w) ?req = Responded res \<and> ok res \<and> body_json res = Some json
          \<and> \<not> storage_full w \<longrightarrow>
         fst (getValidAccessToken net options w)
           = Inr (if truthy_str (access_token json) then access_token json else None))
       \<and> (net (requests w) ?req = Rejected \<longrightarrow>
           getValidAccessToken net options w = (Inl FetchFailed, ?w1))
       \<and> (net (requests w) ?req = Responded res \<and> ok res \<and> body_json res = None \<longrightarrow>
           getValidAccessToken net options w = (Inl BodyNotJson, ?w1))
       \<and> (net (requests w) ?req = Responded res \<and> ok res \<and> body_json res = Some json
          \<and> truthy_str (access_token json) \<and> storage_full w \<longrightarrow>
           getValidAccessToken net options w = (Inl QuotaExceeded, ?w1))"
      by blast
  qed
qed

theorem getValidAccessToken_cases_witness:
  "getItem LS_KEYS_token signed_in = Some ''tok''
   \<and> stored_expiry signed_in = Num 1700003600000
   \<and> real (now signed_in) < 1700003600000 - 30000
   \<and> getValidAccessToken offline no_options signed_in = (Inr (Some ''tok''), signed_in)
   \<and> stored_expiry expired = Num 1700003600000
   \<and> 1700003600000 - 30000 \<le> real (now expired)
   \<and> getStoredAccessToken expired_no_refresh = None
   \<and> getValidAccessToken offline no_options expired_no_refresh
       = (Inr None, expired_no_refresh)
   \<and> getStoredAccessToken expired = None
   \<and> getItem LS_KEYS_refreshToken expired = Some ''r1''
   \<and> requests (snd (getValidAccessToken
         (answering \<lparr>status = 400, body_text = ''invalid_grant'', body_json = None\<rparr>)
         no_options expired))
       = [token_request (refresh_body ''r1'' (Some ''abc''))]
   \<and> fst (getValidAccessToken
         (answering \<lparr>status = 400, body_text = ''invalid_grant'', body_json = None\<rparr>)
         no_options expired) = Inr None
   \<and> fst (getValidAccessToken
         (answering \<lparr>status = 200, body_text = [],
                     body_json = Some (token_json (Some ''tok2'') (Some 3600) None)\<rparr>)
         no_options expired) = Inr (Some ''tok2'')
   \<and> fst (getValidAccessToken
         (answering \<lparr>status = 200, body_text = [],
                     body_json = Some (token_json None None None)\<rparr>)
         no_options expired) = Inr None
   \<and> fst (getValidAccessToken offline no_options expired) = Inl FetchFailed
   \<and> fst (getValidAccessToken
         (answering \<lparr>status = 200, body_text = ''<html>'', body_json = None\<rparr>)
         no_options expired) = Inl BodyNotJson
   \<and> storage_full (expired\<lparr>storage_full := True\<rparr>)
   \<and> fst (getValidAccessToken
         (answering \<lparr>status = 200, body_text = [],
                     body_json = Some (token_json (Some ''tok2'') (Some 3600) None)\<rparr>)
         no_options (expired\<lparr>storage_full := True\<rparr>)) = Inl QuotaExceeded"
proof -
  let ?bad = "\<lparr>status = 400, body_text = ''invalid_grant'', body_json = None\<rparr>"
  let ?good = "\<lparr>status = 200, body_text = [],
                 body_json = Some (token_json (Some ''tok2'') (Some 3600) None)\<rparr>"
  let ?bare = "\<lparr>status = 200, body_text = [],
                 body_json = Some (token_json None None None)\<rparr>"
  let ?html = "\<lparr>status = 200, body_text = ''<html>'', body_json = None\<rparr>"
  let ?full = "expired\<lparr>storage_full := True\<rparr>"
  have a: "getItem LS_KEYS_token signed_in = Some ''tok''"
    "stored_expiry signed_in = Num 1700003600000"
    "real (now signed_in) < 1700003600000 - 30000"
    by (simp_all add: eval_defs)
  have b: "stored_expiry expired = Num 1700003600000"
    "1700003600000 - 30000 \<le> real (now expired)"
    by (simp_all add: eval_defs)
  have c: "getStoredAccessToken expired_no_refresh = None"
    "\<not> truthy_str (getItem LS_KEYS_refreshToken expired_no_refresh)"
    by (simp_all add: eval_defs)
  have d: "getItem LS_KEYS_refreshToken expired = Some ''r1''"
    "default_clientId no_options expired = Some ''abc''"
    "requests expired = []" "\<not> storage_full expired"
    by (simp_all add: eval_defs default_clientId_def no_options_def)
  have d': "getItem LS_KEYS_refreshToken ?full = Some ''r1''"
    "default_clientId no_options ?full = Some ''abc''"
    "requests ?full = []" "storage_full ?full" "getStoredAccessToken ?full = None"
    by (simp_all add: eval_defs default_clientId_def no_options_def)
  note A = getValidAccessToken_cases
    [where w = signed_in and t = "''tok''" and e = 1700003600000 and net = offline
       and options = no_options]
  note B = getValidAccessToken_cases [where w = expired and e = 1700003600000]
  note C = getValidAccessToken_cases
    [where w = expired_no_refresh and net = offline and options = no_options]
  note D1 = getValidAccessToken_cases
    [where w = expired and r = "''r1''" and options = no_options
       and net = "answering ?bad" and res = ?bad]
  note D2 = getValidAccessToken_cases
    [where w = expired and r = "''r1''" and options = no_options
       and net = "answering ?good" and res = ?good
       and json = "token_json (Some ''tok2'') (Some 3600) None"]
  note D3 = getValidAccessToken_cases
    [where w = expired and r = "''r1''" and options = no_options
       and net = "answering ?bare" and res = ?bare
       and json = "token_json None None None"]
  note D4 = getValidAccessToken_cases
    [where w = expired and r = "''r1''" and options = no_options and net = offline]
  note D5 = getValidAccessToken_cases
    [where w = expired and r = "''r1''" and options = no_options
       and net = "answering ?html" and res = ?html]
  note D6 = getValidAccessToken_cases
    [where w = ?full and r = "''r1''" and options = no_options
       and net = "answering ?good" and res = ?good
       and json = "token_json (Some ''tok2'') (Some 3600) None"]
  have e: "getStoredAccessToken expired = None"
    using B b by blast
  have f: "getValidAccessToken offline no_options signed_in = (Inr (Some ''tok''), signed_in)"
    using A a by simp
  have g: "getValidAccessToken offline no_options expired_no_refresh
             = (Inr None, expired_no_refresh)"
    using C c by blast
  have h: "requests (snd (getValidAccessToken (answering ?bad) no_options expired))
             = [token_request (refresh_body ''r1'' (Some ''abc''))]"
     "fst (getValidAccessToken (answering ?bad) no_options expired) = Inr None"
    using D1 e d by (simp_all add: answering_def ok_def)
  have i: "fst (getValidAccessToken (answering ?good) no_options expired) = Inr (Some ''tok2'')"
    using D2 e d by (simp add: answering_def ok_def token_json_def truthy_str_def)
  have j: "fst (getValidAccessToken (answering ?bare) no_options expired) = Inr None"
    using D3 e d by (simp add: answering_def ok_def token_json_def truthy_str_def)
  have k: "fst (getValidAccessToken offline no_options expired) = Inl FetchFailed"
    using D4 e d by (simp add: offline_def)
  have l: "fst (getValidAccessToken (answering ?html) no_options expired) = Inl BodyNotJson"
    using D5 e d by (simp add: answering_def ok_def)
  have m: "fst (getValidAccessToken (answering ?good) no_options ?full) = Inl QuotaExceeded"
    using D6 d' by (simp add: answering_def ok_def token_json_def truthy_str_def)
  from a b c d d'(4) e f g h i j k l m show ?thesis by simp
qed

text \<open>
  C2, as the claim words it, fails with an expired token and a stored refresh token:
  when the refresh request is rejected, and when the answer carries a new access
  token that \<^verbatim>\<open>localStorage\<close> refuses, the call neither returns the new access token
  nor \<open>null\<close>; it throws, as \<open>refreshAccessToken\<close> catches nothing.
\<close>

theorem getValidAccessToken_throws_counterexample:
  "getStoredAccessToken expired = None
   \<and> getItem LS_KEYS_refreshToken expired = Some ''r1''
   \<and> fst (getValidAccessToken offline no_options expired) = Inl FetchFailed
   \<and> fst (getValidAccessToken
         (answering \<lparr>status = 200, body_text = [],
                     body_json = Some (token_json (Some ''tok2'') (Some 3600) None)\<rparr>)
         no_options (expired\<lparr>storage_full := True\<rparr>)) = Inl QuotaExceeded"
proof -
  let ?full = "expired\<lparr>storage_full := True\<rparr>"
  let ?good = "\<lparr>status = 200, body_text = [],
                 body_json = Some (token_json (Some ''tok2'') (Some 3600) None)\<rparr>"
  have e: "getStoredAccessToken expired = None"
    "getItem LS_KEYS_refreshToken expired = Some ''r1''"
    by (simp_all add: eval_defs)
  have f: "getStoredAccessToken ?full = None"
    "getItem LS_KEYS_refreshToken ?full = Some ''r1''" "storage_full ?full"
    by (simp_all add: eval_defs)
  have 1: "fst (getValidAccessToken offline no_options expired) = Inl FetchFailed"
    using e
    by (simp add: getValidAccessToken_def refreshAccessToken_def fetch_def offline_def
          truthy_str_def Let_def)
  have "storeTokenResponse (token_json (Some ''tok2'') (Some 3600) None)
          (?full\<lparr>requests := rs\<rparr>)
        = (Inl QuotaExceeded, ?full\<lparr>requests := rs\<rparr>)" for rs
    by (simp add: storeTokenResponse_def setItem_def token_json_def truthy_str_def Let_def)
  then have 2: "fst (getValidAccessToken (answering ?good) no_options ?full)
                  = Inl QuotaExceeded"
    using f
    by (simp add: getValidAccessToken_def refreshAccessToken_def fetch_def answering_def
          ok_def truthy_str_def Let_def)
  from e 1 2 show ?thesis by simp
qed

subsection \<open>Authorized requests\<close>

text \<open>
  C7, as the code has it. \<open>apiFetch\<close> throws \<^verbatim>\<open>Error('Not authenticated with Spotify')\<close>
  and issues no resource request when \<open>getValidAccessToken\<close> yields \<open>null\<close>. With a
  token, a response of status 401 makes it throw the fixed \<^verbatim>\<open>Error('Unauthorized')\<close>,
  and every other response outside 200..299 makes it throw an error whose message
  carries the status and the body text.
\<close>

theorem apiFetch_failures:
  "(getValidAccessToken net no_options w = (Inr None, w1) \<longrightarrow>
      apiFetch net path options w = (Inl (Error ''Not authenticated with Spotify''), w1))
   \<and> (getValidAccessToken net no_options w = (Inr (Some t), w1) \<and> t \<noteq> []
       \<and> net (requests w1) (api_request t path options) = Responded res \<longrightarrow>
        (status res = 401 \<longrightarrow>
           apiFetch net path options w
             = (Inl (Error ''Unauthorized''),
                w1\<lparr>requests := requests w1 @ [api_request t path options]\<rparr>))
      \<and> (status res \<noteq> 401 \<and> \<not> ok res \<longrightarrow>
           apiFetch net path options w
             = (Inl (Error (''Spotify API error '' @ js_String (int (status res)) @ '': ''
                            @ body_text res)),
                w1\<lparr>requests := requests w1 @ [api_request t path options]\<rparr>)))"
  by (simp add: apiFetch_def fetch_def truthy_str_def)

lemma signed_in_token:
  "getValidAccessToken net no_options signed_in = (Inr (Some ''tok''), signed_in)"
proof -
  have "getStoredAccessToken signed_in = Some ''tok''"
    by (simp add: eval_defs)
  then show ?thesis
    by (simp add: getValidAccessToken_def truthy_str_def)
qed

lemma page_load_no_token:
  "getValidAccessToken net no_options page_load = (Inr None, page_load)"
proof -
  have "getStoredAccessToken page_load = None"
    "\<not> truthy_str (getItem LS_KEYS_refreshToken page_load)"
    by (simp_all add: eval_defs)
  then show ?thesis
    by (simp add: getValidAccessToken_def refreshAccessToken_def truthy_str_def)
qed

theorem apiFetch_failures_witness:
  "getValidAccessToken offline no_options page_load = (Inr None, page_load)
   \<and> apiFetch offline ''/me'' no_fetch_options page_load
       = (Inl (Error ''Not authenticated with Spotify''), page_load)
   \<and> fst (apiFetch
        (answering \<lparr>status = 401, body_text = ''token expired'', body_json = None\<rparr>)
        ''/me'' no_fetch_options signed_in) = Inl (Error ''Unauthorized'')
   \<and> fst (apiFetch
        (answering \<lparr>status = 500, body_text = ''boom'', body_json = None\<rparr>)
        ''/me'' no_fetch_options signed_in) = Inl (Error ''Spotify API error 500: boom'')"
proof -
  have s: "js_String 500 = ''500''"
    by (simp add: js_String_def dec.simps digit_char_def)
  note A = apiFetch_failures
    [where net = offline and w = page_load and ?w1.0 = page_load and path = "''/me''"
       and options = no_fetch_options]
  note B = apiFetch_failures
    [where net = "answering \<lparr>status = 401, body_text = ''token expired'', body_json = None\<rparr>"
       and res = "\<lparr>status = 401, body_text = ''token expired'', body_json = None\<rparr>"
       and w = signed_in and ?w1.0 = signed_in and t = "''tok''" and path = "''/me''"
       and options = no_fetch_options]
  note C = apiFetch_failures
    [where net = "answering \<lparr>status = 500, body_text = ''boom'', body_json = None\<rparr>"
       and res = "\<lparr>status = 500, body_text = ''boom'', body_json = None\<rparr>"
       and w = signed_in and ?w1.0 = signed_in and t = "''tok''" and path = "''/me''"
       and options = no_fetch_options]
  have a: "apiFetch offline ''/me'' no_fetch_options page_load
       = (Inl (Error ''Not authenticated with Spotify''), page_load)"
    using A page_load_no_token by blast
  have b: "fst (apiFetch
        (answering \<lparr>status = 401, body_text = ''token expired'', body_json = None\<rparr>)
        ''/me'' no_fetch_options signed_in) = Inl (Error ''Unauthorized'')"
    using B signed_in_token by (simp add: answering_def)
  have c: "fst (apiFetch
        (answering \<lparr>status = 500, body_text = ''boom'', body_json = None\<rparr>)
        ''/me'' no_fetch_options signed_in) = Inl (Error ''Spotify API error 500: boom'')"
    using C signed_in_token by (simp add: answering_def ok_def s)
  from a b c page_load_no_token show ?thesis by simp
qed

text \<open>
  C7, as the claim words it, fails at status 401: the error thrown is the fixed
  \<^verbatim>\<open>Error('Unauthorized')\<close>, which carries neither the status nor the body the server
  sent; the body is not read.
\<close>

theorem apiFetch_401_counterexample:
  "fst (apiFetch
     (answering \<lparr>status = 401, body_text = ''token expired'', body_json = None\<rparr>)
     ''/me'' no_fetch_options signed_in) = Inl (Error ''Unauthorized'')
   \<and> fst (apiFetch
     (answering \<lparr>status = 401, body_text = ''token expired'', body_json = None\<rparr>)
     ''/me'' no_fetch_options signed_in)
     \<noteq> Inl (Error (''Spotify API error '' @ js_String 401 @ '': '' @ ''token expired''))"
  using signed_in_token
  by (simp add: apiFetch_def fetch_def answering_def truthy_str_def)

subsection \<open>Paginated fetchers and the collection assembler\<close>

lemma stored_expiry_requests [simp]:
  "stored_expiry (w\<lparr>requests := x\<rparr>) = stored_expiry w"
  by (simp add: stored_expiry_def getItem_def split: option.splits)

lemma getStoredAccessToken_requests [simp]:
  "getStoredAccessToken (w\<lparr>requests := x\<rparr>) = getStoredAccessToken w"
  by (simp add: getStoredAccessToken_def getItem_def Let_def)

lemma getStoredAccessToken_truthy:
  "getStoredAccessToken w = Some t \<Longrightarrow> t \<noteq> []"
  by (auto simp: getStoredAccessToken_def truthy_str_def Let_def
           split: if_splits option.splits)

lemma apiFetch_page:
  assumes "getStoredAccessToken w = Some t"
    and "net (requests w) (api_request t path options) = Responded res"
    and "ok res" and "body_json res = Some p"
  shows "apiFetch net path options w
           = (Inr p, w\<lparr>requests := requests w @ [api_request t path options]\<rparr>)"
proof -
  have t: "t \<noteq> []" using assms(1) by (rule getStoredAccessToken_truthy)
  have "getValidAccessToken net no_options w = (Inr (Some t), w)"
    using assms(1) t by (simp add: getValidAccessToken_def truthy_str_def)
  moreover have "status res \<noteq> 401" using assms(3) by (auto simp: ok_def)
  ultimately show ?thesis
    using assms t by (simp add: apiFetch_def fetch_def truthy_str_def)
qed

lemma map_throwing_append_eq:
  "map_throwing f (xs @ ys) =
     (case map_throwing f xs of
        Inl e \<Rightarrow> Inl e
      | Inr a \<Rightarrow> (case map_throwing f ys of Inl e \<Rightarrow> Inl e | Inr b \<Rightarrow> Inr (a @ b)))"
  by (induction xs) (auto split: sum.splits)

lemma map_throwing_append:
  "map_throwing f (xs @ ys) = Inr zs \<longleftrightarrow>
     (\<exists>a b. map_throwing f xs = Inr a \<and> map_throwing f ys = Inr b \<and> zs = a @ b)"
  by (auto simp: map_throwing_append_eq split: sum.splits)

lemma map_throwing_Inr [simp]: "map_throwing Inr xs = Inr xs"
  by (induction xs) auto

lemma pages_loop_serves:
  assumes "getStoredAccessToken w = Some t"
    and "serves net t (requests w) url pages"
    and "map_throwing mapper (concat (map page_items pages)) = Inr its"
  shows "pages_loop net mapper (Some url) all w
           = Some (Inr (all @ its), w\<lparr>requests := requests w @ page_requests t url pages\<rparr>)"
  using assms
proof (induction pages arbitrary: url all w its)
  case Nil
  then show ?case by simp
next
  case (Cons p ps)
  let ?req = "page_request t url"
  let ?w1 = "w\<lparr>requests := requests w @ [?req]\<rparr>"
  from Cons.prems(2) obtain res where res: "net (requests w) ?req = Responded res"
    "ok res" "body_json res = Some p" and url: "url \<noteq> []"
    by (auto split: fetch_result.splits)
  have fetch: "apiFetch net (replace_first API_BASE [] url) no_fetch_options w = (Inr p, ?w1)"
    using apiFetch_page [OF Cons.prems(1), of net "replace_first API_BASE [] url" no_fetch_options res p] res
    by (simp add: page_request_def)
  from Cons.prems(3) obtain a b where ab: "map_throwing mapper (page_items p) = Inr a"
    "map_throwing mapper (concat (map page_items ps)) = Inr b" "its = a @ b"
    by (auto simp: map_throwing_append)
  show ?case
  proof (cases "truthy_str (next p)")
    case False
    then have ps: "ps = []" using Cons.prems(2) by (auto simp: truthy_str_def split: option.splits if_splits)
    then have b: "b = []" using ab(2) by simp
    have "pages_loop net mapper (next p) (all @ a) ?w1 = Some (Inr (all @ a), ?w1)"
      using False by (subst pages_loop.simps) simp
    moreover have "page_requests t url (p # ps) = [?req]"
      using ps by (simp split: option.splits)
    ultimately show ?thesis
      using url fetch ab b by (subst pages_loop.simps) (simp add: truthy_str_def)
  next
    case True
    then obtain u where u: "next p = Some u" "u \<noteq> []"
      by (auto simp: truthy_str_def split: option.splits)
    with Cons.prems(2) have sv: "serves net t (requests ?w1) u ps"
      by simp
    have tok: "getStoredAccessToken ?w1 = Some t" using Cons.prems(1) by simp
    have "pages_loop net mapper (Some u) (all @ a) ?w1
            = Some (Inr ((all @ a) @ b), ?w1\<lparr>requests := requests ?w1 @ page_requests t u ps\<rparr>)"
      by (rule Cons.IH [OF tok sv ab(2)])
    then show ?thesis
      using url fetch ab u by (subst pages_loop.simps) (simp add: truthy_str_def)
  qed
qed

lemma serves_length:
  "serves net t prior url pages \<Longrightarrow> length (page_requests t url pages) = length pages"
proof (induction pages arbitrary: prior url)
  case Nil
  then show ?case by simp
next
  case (Cons p ps)
  then show ?case
    by (cases "next p") (auto split: if_splits)
qed

lemma serves_two_pages:
  "u \<noteq> [] \<Longrightarrow> serves (scripted (map ok_json two_pages)) t [] u two_pages"
  by (simp add: two_pages_def scripted_def ok_json_def page_json_def ok_def)

lemma playlists_loop_acc:
  "playlists_loop net san ps acc w =
     (case playlists_loop net san ps [] w of
        None \<Rightarrow> None
      | Some (Inl e, w') \<Rightarrow> Some (Inl e, w')
      | Some (Inr r, w') \<Rightarrow> Some (Inr (acc @ r), w'))"
proof (induction ps arbitrary: acc w)
  case Nil
  show ?case by simp
next
  case (Cons p ps)
  show ?case
  proof (cases "nullish p")
    case True
    then show ?thesis by simp
  next
    case False
    show ?thesis
    proof (cases "getAllPlaylistTracks net san (field p ''id'') w")
      case None
      with False show ?thesis by simp
    next
      case (Some rw)
      obtain r w1 where rw: "rw = (r, w1)" by (cases rw)
      show ?thesis
      proof (cases r)
        case (Inl e)
        with False Some rw show ?thesis by simp
      next
        case (Inr tracks)
        have a: "playlists_loop net san ps (acc @ [named_playlist p tracks]) w1 =
           (case playlists_loop net san ps [] w1 of
              None \<Rightarrow> None
            | Some (Inl e, w') \<Rightarrow> Some (Inl e, w')
            | Some (Inr r, w') \<Rightarrow> Some (Inr ((acc @ [named_playlist p tracks]) @ r), w'))"
          by (rule Cons.IH)
        have b: "playlists_loop net san ps [named_playlist p tracks] w1 =
           (case playlists_loop net san ps [] w1 of
              None \<Rightarrow> None
            | Some (Inl e, w') \<Rightarrow> Some (Inl e, w')
            | Some (Inr r, w') \<Rightarrow> Some (Inr ([named_playlist p tracks] @ r), w'))"
          by (rule Cons.IH)
        from False Some rw Inr a b show ?thesis
          by (auto split: option.splits sum.splits prod.splits)
      qed
    qed
  qed
qed

lemma playlists_loop_append:
  "playlists_loop net san (xs @ ys) acc w =
     (case playlists_loop net san xs acc w of
        None \<Rightarrow> None
      | Some (Inl e, w') \<Rightarrow> Some (Inl e, w')
      | Some (Inr acc', w') \<Rightarrow> playlists_loop net san ys acc' w')"
  by (induction xs arbitrary: acc w) (auto split: option.splits sum.splits prod.splits)

lemma field_named_playlist [simp]:
  "field (named_playlist p tracks) ''id'' = field p ''id''"
  "field (named_playlist p tracks) ''name'' = field p ''name''"
  "field (named_playlist p tracks) ''tracks'' = JArr tracks"
  by (simp_all add: named_playlist_def field_def)

lemma playlists_loop_shape:
  "playlists_loop net san ps [] w = Some (Inr named, w') \<Longrightarrow>
     map (\<lambda>x. field x ''id'') named = map (\<lambda>p. field p ''id'') ps
     \<and> map (\<lambda>x. field x ''name'') named = map (\<lambda>p. field p ''name'') ps"
proof (induction ps arbitrary: named w)
  case Nil
  then show ?case by simp
next
  case (Cons p ps)
  from Cons.prems obtain tracks w1 where
    t: "\<not> nullish p" "getAllPlaylistTracks net san (field p ''id'') w = Some (Inr tracks, w1)"
    and l: "playlists_loop net san ps [named_playlist p tracks] w1 = Some (Inr named, w')"
    by (auto split: if_splits option.splits sum.splits prod.splits)
  from l obtain r where r: "playlists_loop net san ps [] w1 = Some (Inr r, w')"
    "named = named_playlist p tracks # r"
    by (subst (asm) playlists_loop_acc) (auto split: option.splits sum.splits prod.splits)
  from Cons.IH [OF r(1)] r(2) show ?case by simp
qed

lemma single_page:
  assumes "getStoredAccessToken w = Some t" and "url \<noteq> []"
    and "net (requests w) (page_request t url) = ok_json p"
    and "next p = None"
    and "map_throwing mapper (page_items p) = Inr its"
  shows "pages_loop net mapper (Some url) [] w
           = Some (Inr its, w\<lparr>requests := requests w @ [page_request t url]\<rparr>)"
proof -
  have "serves net t (requests w) url [p]"
    using assms by (simp add: ok_json_def ok_def)
  from pages_loop_serves [OF assms(1) this, of mapper its "[]"] assms(4,5)
  show ?thesis by simp
qed

lemma first_page_fails:
  assumes "getStoredAccessToken w = Some t" and "url \<noteq> []"
    and "net (requests w) (page_request t url) = Responded res"
    and "status res \<noteq> 401" and "\<not> ok res"
  shows "pages_loop net mapper (Some url) all w
           = Some (Inl (Error (''Spotify API error '' @ js_String (int (status res)) @ '': ''
                               @ body_text res)),
                   w\<lparr>requests := requests w @ [page_request t url]\<rparr>)"
proof -
  have t: "t \<noteq> []" using assms(1) by (rule getStoredAccessToken_truthy)
  have "getValidAccessToken net no_options w = (Inr (Some t), w)"
    using assms(1) t by (simp add: getValidAccessToken_def truthy_str_def)
  then have "apiFetch net (replace_first API_BASE [] url) no_fetch_options w
     = (Inl (Error (''Spotify API error '' @ js_String (int (status res)) @ '': ''
                               @ body_text res)),
                   w\<lparr>requests := requests w @ [page_request t url]\<rparr>)"
    using assms t by (simp add: apiFetch_def fetch_def truthy_str_def page_request_def)
  then show ?thesis
    using assms(2) by (subst pages_loop.simps) (simp add: truthy_str_def)
qed

lemma logged_token [simp]: "getStoredAccessToken (logged rs) = Some ''tok''"
  by (simp add: logged_def) (simp add: eval_defs)

lemma logged_requests [simp]: "requests (logged rs) = rs" "logged rs\<lparr>requests := rs'\<rparr> = logged rs'"
  by (simp_all add: logged_def)

lemma urls_nonempty [simp]: "playlists_url \<noteq> []" "saved_tracks_url \<noteq> []" "tracks_url v \<noteq> []"
  by (simp_all add: playlists_url_def saved_tracks_url_def tracks_url_def)

lemma track_name_song: "track_name song = Inr (JObj [(''name'', JStr ''Song'')])"
  by (simp add: track_name_def song_def nullish_def field_def)

lemma boom_message:
  "''Spotify API error '' @ js_String (int 500) @ '': '' @ ''boom'' = ''Spotify API error 500: boom''"
  by (simp add: js_String_def dec.simps digit_char_def)

lemma scripted_page:
  assumes "length rs < length script" and "script ! length rs = ok_json p"
    and "next p = None" and "url \<noteq> []" and "map_throwing mapper (page_items p) = Inr its"
  shows "pages_loop (scripted script) mapper (Some url) [] (logged rs)
           = Some (Inr its, logged (rs @ [page_request ''tok'' url]))"
  using single_page [of "logged rs" "''tok''" url "scripted script" p mapper its] assms
  by (simp add: scripted_def)

lemma scripted_boom:
  assumes "length rs < length script" and "script ! length rs = boom" and "url \<noteq> []"
  shows "pages_loop (scripted script) mapper (Some url) all (logged rs)
           = Some (Inl (Error ''Spotify API error 500: boom''),
                   logged (rs @ [page_request ''tok'' url]))"
  using first_page_fails [of "logged rs" "''tok''" url "scripted script"
      "\<lparr>status = 500, body_text = ''boom'', body_json = None\<rparr>" mapper all] assms
  by (simp add: scripted_def boom_def ok_def boom_message [simplified])

lemmas scenario_defs =
  getAllCurrentUserPlaylists_def getAllSavedTracks_def getAllPlaylistTracks_def
  liked_fails_def tracks_fail_def all_served_def page_json_def page_items_def

lemma mix_id [simp]: "field mix ''id'' = JStr ''p1''" "\<not> nullish mix"
  by (simp_all add: mix_def field_def nullish_def)

text \<open>
  C6. While the stored access token is usable, the paginated fetchers follow the
  server's \<open>next\<close> pointer until it is absent or empty and return the items of every
  page in page order (each passed through \<open>sanitizeTrack\<close> by the track fetcher). One
  request is issued per page: the first for the start URL, and the request for page
  \<open>N+1\<close> is built from the \<open>next\<close> pointer that the answer to request \<open>N\<close>
  carried, so it cannot be issued before that answer. For the pages
  \<^verbatim>\<open>[{items:[a,b], next:p2}, {items:[c], next:null}]\<close> the result is \<open>[a, b, c]\<close> and
  the log grows by exactly two requests.
\<close>

theorem paginated_fetchers_follow_next:
  assumes "getStoredAccessToken w = Some t"
  shows "(serves net t (requests w) playlists_url pages \<longrightarrow>
            getAllCurrentUserPlaylists net w
              = Some (Inr (concat (map page_items pages)),
                      w\<lparr>requests := requests w @ page_requests t playlists_url pages\<rparr>))
       \<and> (serves net t (requests w) (tracks_url playlistId) pages
            \<and> map_throwing sanitizeTrack (concat (map page_items pages)) = Inr tracks \<longrightarrow>
            getAllPlaylistTracks net sanitizeTrack playlistId w
              = Some (Inr tracks,
                      w\<lparr>requests := requests w @ page_requests t (tracks_url playlistId) pages\<rparr>))
       \<and> (serves net t prior url pages \<longrightarrow> length (page_requests t url pages) = length pages)
       \<and> (serves net t (requests w) playlists_url
             [page_json (Some [a, b]) (Some p2), page_json (Some [c]) None] \<longrightarrow>
            getAllCurrentUserPlaylists net w
              = Some (Inr [a, b, c],
                      w\<lparr>requests := requests w
                           @ [page_request t playlists_url, page_request t p2]\<rparr>))"
proof (intro conjI impI)
  assume sv: "serves net t (requests w) playlists_url pages"
  show "getAllCurrentUserPlaylists net w
              = Some (Inr (concat (map page_items pages)),
                      w\<lparr>requests := requests w @ page_requests t playlists_url pages\<rparr>)"
    unfolding getAllCurrentUserPlaylists_def
    using pages_loop_serves [OF assms sv, of Inr "concat (map page_items pages)" "[]"]
    by simp
next
  assume "serves net t (requests w) (tracks_url playlistId) pages
            \<and> map_throwing sanitizeTrack (concat (map page_items pages)) = Inr tracks"
  then show "getAllPlaylistTracks net sanitizeTrack playlistId w
              = Some (Inr tracks,
                      w\<lparr>requests := requests w @ page_requests t (tracks_url playlistId) pages\<rparr>)"
    unfolding getAllPlaylistTracks_def
    using pages_loop_serves [OF assms, of net "tracks_url playlistId" pages sanitizeTrack tracks "[]"]
    by simp
next
  assume "serves net t prior url pages"
  then show "length (page_requests t url pages) = length pages"
    by (rule serves_length)
next
  assume sv: "serves net t (requests w) playlists_url
             [page_json (Some [a, b]) (Some p2), page_json (Some [c]) None]"
  show "getAllCurrentUserPlaylists net w
              = Some (Inr [a, b, c],
                      w\<lparr>requests := requests w
                           @ [page_request t playlists_url, page_request t p2]\<rparr>)"
    unfolding getAllCurrentUserPlaylists_def
    using pages_loop_serves [OF assms sv, of Inr "[a, b, c]" "[]"]
    by (simp add: page_items_def page_json_def)
qed

theorem paginated_fetchers_follow_next_witness:
  "getStoredAccessToken signed_in = Some ''tok''
   \<and> serves (scripted (map ok_json two_pages)) ''tok'' (requests signed_in) playlists_url two_pages
   \<and> getAllCurrentUserPlaylists (scripted (map ok_json two_pages)) signed_in
       = Some (Inr [JStr ''a'', JStr ''b'', JStr ''c''],
               signed_in\<lparr>requests :=
                 [page_request ''tok'' playlists_url,
                  page_request ''tok''
                    ''https://api.spotify.com/v1/me/playlists?offset=50&limit=50'']\<rparr>)
   \<and> length (page_requests ''tok'' playlists_url two_pages) = 2
   \<and> map_throwing track_name (concat (map page_items two_pages))
       = Inr [JObj [(''name'', JUndefined)], JObj [(''name'', JUndefined)],
              JObj [(''name'', JUndefined)]]
   \<and> fst (the (getAllPlaylistTracks (scripted (map ok_json two_pages)) track_name
                 (JStr ''p1'') signed_in))
       = Inr [JObj [(''name'', JUndefined)], JObj [(''name'', JUndefined)],
              JObj [(''name'', JUndefined)]]"
proof -
  have tok: "getStoredAccessToken signed_in = Some ''tok''"
    by (simp add: eval_defs)
  have log: "requests signed_in = []"
    by (simp add: eval_defs)
  have u: "playlists_url \<noteq> []" "tracks_url (JStr ''p1'') \<noteq> []"
    by (simp_all add: playlists_url_def tracks_url_def)
  have sv: "serves (scripted (map ok_json two_pages)) ''tok'' (requests signed_in) playlists_url two_pages"
    "serves (scripted (map ok_json two_pages)) ''tok'' (requests signed_in) (tracks_url (JStr ''p1'')) two_pages"
    using u by (simp_all add: log serves_two_pages)
  have mt: "map_throwing track_name (concat (map page_items two_pages))
       = Inr [JObj [(''name'', JUndefined)], JObj [(''name'', JUndefined)],
              JObj [(''name'', JUndefined)]]"
    by (simp add: two_pages_def page_json_def page_items_def track_name_def nullish_def field_def)
  note T = paginated_fetchers_follow_next [OF tok, where net = "scripted (map ok_json two_pages)" and pages = two_pages
     and prior = "requests signed_in" and url = playlists_url and sanitizeTrack = track_name
     and playlistId = "JStr ''p1''"
     and tracks = "[JObj [(''name'', JUndefined)], JObj [(''name'', JUndefined)],
              JObj [(''name'', JUndefined)]]"]
  have 1: "getAllCurrentUserPlaylists (scripted (map ok_json two_pages)) signed_in
       = Some (Inr [JStr ''a'', JStr ''b'', JStr ''c''],
               signed_in\<lparr>requests :=
                 [page_request ''tok'' playlists_url,
                  page_request ''tok''
                    ''https://api.spotify.com/v1/me/playlists?offset=50&limit=50'']\<rparr>)"
    using T sv(1) by (simp add: log two_pages_def page_json_def page_items_def)
  have 2: "length (page_requests ''tok'' playlists_url two_pages) = 2"
    using T sv(1) by (simp add: two_pages_def)
  have 3: "fst (the (getAllPlaylistTracks (scripted (map ok_json two_pages)) track_name
                 (JStr ''p1'') signed_in))
       = Inr [JObj [(''name'', JUndefined)], JObj [(''name'', JUndefined)],
              JObj [(''name'', JUndefined)]]"
    using T sv(2) mt by simp
  from tok sv(1) 1 2 mt 3 show ?thesis by simp
qed

text \<open>
  C5. In \<open>getPlaylistsWithTracks\<close>, a failure of the liked-songs fetch is swallowed:
  assembly goes on with the named playlists from an empty result, and a result that
  is returned lists exactly the named playlists, without the virtual one. A failure
  of a named playlist's track fetch is not swallowed: it is the outcome of the whole
  call, and the world it leaves is the one at the failure, so no later playlist was
  fetched.
\<close>

theorem getPlaylistsWithTracks_partial_failure:
  "(getAllCurrentUserPlaylists net w = Some (Inr ps, w1)
      \<and> getAllSavedTracks net sanitizeTrack w1 = Some (Inl e, w2) \<longrightarrow>
        getPlaylistsWithTracks net sanitizeTrack w = playlists_loop net sanitizeTrack ps [] w2
        \<and> (getPlaylistsWithTracks net sanitizeTrack w = Some (Inr result, w3) \<longrightarrow>
             map (\<lambda>x. field x ''id'') result = map (\<lambda>p. field p ''id'') ps))
   \<and> (getAllCurrentUserPlaylists net w = Some (Inr (before @ p # rest), w1)
      \<and> getAllSavedTracks net sanitizeTrack w1 = Some (liked, w2)
      \<and> playlists_loop net sanitizeTrack before
           (case liked of Inl x \<Rightarrow> [] | Inr tracks \<Rightarrow> [liked_playlist tracks]) w2
          = Some (Inr built, w3)
      \<and> \<not> nullish p
      \<and> getAllPlaylistTracks net sanitizeTrack (field p ''id'') w3 = Some (Inl e', w4) \<longrightarrow>
        getPlaylistsWithTracks net sanitizeTrack w = Some (Inl e', w4))"
proof (intro conjI impI)
  assume h: "getAllCurrentUserPlaylists net w = Some (Inr ps, w1)
      \<and> getAllSavedTracks net sanitizeTrack w1 = Some (Inl e, w2)"
  then show g: "getPlaylistsWithTracks net sanitizeTrack w = playlists_loop net sanitizeTrack ps [] w2"
    by (simp add: getPlaylistsWithTracks_def)
  assume "getPlaylistsWithTracks net sanitizeTrack w = Some (Inr result, w3)"
  with g have "playlists_loop net sanitizeTrack ps [] w2 = Some (Inr result, w3)"
    by simp
  then show "map (\<lambda>x. field x ''id'') result = map (\<lambda>p. field p ''id'') ps"
    by (rule playlists_loop_shape [THEN conjunct1])
next
  assume h: "getAllCurrentUserPlaylists net w = Some (Inr (before @ p # rest), w1)
      \<and> getAllSavedTracks net sanitizeTrack w1 = Some (liked, w2)
      \<and> playlists_loop net sanitizeTrack before
           (case liked of Inl x \<Rightarrow> [] | Inr tracks \<Rightarrow> [liked_playlist tracks]) w2
          = Some (Inr built, w3)
      \<and> \<not> nullish p
      \<and> getAllPlaylistTracks net sanitizeTrack (field p ''id'') w3 = Some (Inl e', w4)"
  then have "playlists_loop net sanitizeTrack (before @ p # rest)
           (case liked of Inl x \<Rightarrow> [] | Inr tracks \<Rightarrow> [liked_playlist tracks]) w2
       = Some (Inl e', w4)"
    by (simp add: playlists_loop_append)
  with h show "getPlaylistsWithTracks net sanitizeTrack w = Some (Inl e', w4)"
    by (cases liked) (simp_all add: getPlaylistsWithTracks_def)
qed

theorem getPlaylistsWithTracks_partial_failure_witness:
  "getAllCurrentUserPlaylists liked_fails (logged [])
     = Some (Inr [mix], logged [page_request ''tok'' playlists_url])
   \<and> getAllSavedTracks liked_fails track_name (logged [page_request ''tok'' playlists_url])
     = Some (Inl (Error ''Spotify API error 500: boom''),
             logged [page_request ''tok'' playlists_url, page_request ''tok'' saved_tracks_url])
   \<and> getPlaylistsWithTracks liked_fails track_name (logged [])
     = Some (Inr [named_playlist mix [JObj [(''name'', JStr ''Song'')]]],
             logged [page_request ''tok'' playlists_url, page_request ''tok'' saved_tracks_url,
                     page_request ''tok'' (tracks_url (JStr ''p1''))])
   \<and> getAllCurrentUserPlaylists tracks_fail (logged [])
     = Some (Inr [mix, jam], logged [page_request ''tok'' playlists_url])
   \<and> getAllSavedTracks tracks_fail track_name (logged [page_request ''tok'' playlists_url])
     = Some (Inr [JObj [(''name'', JStr ''Song'')]],
             logged [page_request ''tok'' playlists_url, page_request ''tok'' saved_tracks_url])
   \<and> getAllPlaylistTracks tracks_fail track_name (field mix ''id'')
        (logged [page_request ''tok'' playlists_url, page_request ''tok'' saved_tracks_url])
     = Some (Inl (Error ''Spotify API error 500: boom''),
             logged [page_request ''tok'' playlists_url, page_request ''tok'' saved_tracks_url,
                     page_request ''tok'' (tracks_url (JStr ''p1''))])
   \<and> getPlaylistsWithTracks tracks_fail track_name (logged [])
     = Some (Inl (Error ''Spotify API error 500: boom''),
             logged [page_request ''tok'' playlists_url, page_request ''tok'' saved_tracks_url,
                     page_request ''tok'' (tracks_url (JStr ''p1''))])"
proof -
  let ?r1 = "page_request ''tok'' playlists_url"
  let ?r2 = "page_request ''tok'' saved_tracks_url"
  let ?r3 = "page_request ''tok'' (tracks_url (JStr ''p1''))"
  let ?boom = "Error ''Spotify API error 500: boom''"
  let ?sn = "JObj [(''name'', JStr ''Song'')]"
  have a1: "getAllCurrentUserPlaylists liked_fails (logged []) = Some (Inr [mix], logged [?r1])"
    by (simp add: scenario_defs scripted_page [where p = "page_json (Some [mix]) None"])
  have a2: "getAllSavedTracks liked_fails track_name (logged [?r1])
              = Some (Inl ?boom, logged [?r1, ?r2])"
    by (simp add: scenario_defs scripted_boom)
  have a3: "getAllPlaylistTracks liked_fails track_name (JStr ''p1'') (logged [?r1, ?r2])
              = Some (Inr [?sn], logged [?r1, ?r2, ?r3])"
    by (simp add: scenario_defs track_name_song
          scripted_page [where p = "page_json (Some [song]) None"])
  have a4: "playlists_loop liked_fails track_name [mix] [] (logged [?r1, ?r2])
              = Some (Inr [named_playlist mix [?sn]], logged [?r1, ?r2, ?r3])"
    by (simp add: a3)
  have a: "getPlaylistsWithTracks liked_fails track_name (logged [])
             = Some (Inr [named_playlist mix [?sn]], logged [?r1, ?r2, ?r3])"
    using getPlaylistsWithTracks_partial_failure [where net = liked_fails and w = "logged []" and ps = "[mix]"
        and ?w1.0 = "logged [?r1]" and sanitizeTrack = track_name and e = ?boom
        and ?w2.0 = "logged [?r1, ?r2]"] a1 a2 a4
    by simp
  have b1: "getAllCurrentUserPlaylists tracks_fail (logged [])
              = Some (Inr [mix, jam], logged [?r1])"
    by (simp add: scenario_defs scripted_page [where p = "page_json (Some [mix, jam]) None"])
  have b2: "getAllSavedTracks tracks_fail track_name (logged [?r1])
              = Some (Inr [?sn], logged [?r1, ?r2])"
    by (simp add: scenario_defs track_name_song
          scripted_page [where p = "page_json (Some [song]) None"])
  have b3: "getAllPlaylistTracks tracks_fail track_name (field mix ''id'') (logged [?r1, ?r2])
              = Some (Inl ?boom, logged [?r1, ?r2, ?r3])"
    by (simp add: scenario_defs scripted_boom)
  have b: "getPlaylistsWithTracks tracks_fail track_name (logged [])
             = Some (Inl ?boom, logged [?r1, ?r2, ?r3])"
    using getPlaylistsWithTracks_partial_failure [where net = tracks_fail and w = "logged []" and before = "[]" and p = mix
        and rest = "[jam]" and ?w1.0 = "logged [?r1]" and sanitizeTrack = track_name
        and liked = "Inr [?sn]" and ?w2.0 = "logged [?r1, ?r2]"
        and built = "[liked_playlist [?sn]]" and ?w3.0 = "logged [?r1, ?r2]"
        and e' = ?boom and ?w4.0 = "logged [?r1, ?r2, ?r3]"] b1 b2 b3
    by simp
  from a1 a2 a b1 b2 b3 b show ?thesis by simp
qed

text \<open>
  C10. When the liked-songs fetch succeeds, \<open>getPlaylistsWithTracks\<close> returns a result
  exactly when the named playlists can be assembled, and the result is then the virtual
  playlist followed by the named ones. The virtual playlist has the id
  \<^verbatim>\<open>liked-songs-virtual\<close> and the raw marker \<^verbatim>\<open>{type:'virtual', source:'liked_songs'}\<close>;
  the named entries carry the ids and names of the playlists in the order the
  playlist-list endpoint returned them.
\<close>

theorem getPlaylistsWithTracks_liked_first:
  assumes "getAllCurrentUserPlaylists net w = Some (Inr ps, w1)"
    and "getAllSavedTracks net sanitizeTrack w1 = Some (Inr liked, w2)"
  shows "(getPlaylistsWithTracks net sanitizeTrack w = Some (Inr result, w3) \<longleftrightarrow>
           (\<exists>named. playlists_loop net sanitizeTrack ps [] w2 = Some (Inr named, w3)
                    \<and> result = liked_playlist liked # named))
       \<and> (playlists_loop net sanitizeTrack ps [] w2 = Some (Inr named, w3) \<longrightarrow>
            map (\<lambda>x. field x ''id'') named = map (\<lambda>p. field p ''id'') ps
            \<and> map (\<lambda>x. field x ''name'') named = map (\<lambda>p. field p ''name'') ps)
       \<and> field (liked_playlist liked) ''id'' = JStr ''liked-songs-virtual''
       \<and> field (liked_playlist liked) ''raw''
           = JObj [(''type'', JStr ''virtual''), (''source'', JStr ''liked_songs'')]
       \<and> field (liked_playlist liked) ''tracks'' = JArr liked"
proof (intro conjI impI)
  have g: "getPlaylistsWithTracks net sanitizeTrack w
             = playlists_loop net sanitizeTrack ps [liked_playlist liked] w2"
    using assms by (simp add: getPlaylistsWithTracks_def)
  show "getPlaylistsWithTracks net sanitizeTrack w = Some (Inr result, w3) \<longleftrightarrow>
           (\<exists>named. playlists_loop net sanitizeTrack ps [] w2 = Some (Inr named, w3)
                    \<and> result = liked_playlist liked # named)"
    unfolding g
    by (subst playlists_loop_acc) (auto split: option.splits sum.splits prod.splits)
next
  assume "playlists_loop net sanitizeTrack ps [] w2 = Some (Inr named, w3)"
  then show "map (\<lambda>x. field x ''id'') named = map (\<lambda>p. field p ''id'') ps"
    "map (\<lambda>x. field x ''name'') named = map (\<lambda>p. field p ''name'') ps"
    using playlists_loop_shape by blast+
qed (simp_all add: liked_playlist_def liked_raw_def LIKED_ID_def field_def)

theorem getPlaylistsWithTracks_liked_first_witness:
  "getAllCurrentUserPlaylists all_served (logged [])
     = Some (Inr [mix], logged [page_request ''tok'' playlists_url])
   \<and> getAllSavedTracks all_served track_name (logged [page_request ''tok'' playlists_url])
     = Some (Inr [JObj [(''name'', JStr ''Song'')]],
             logged [page_request ''tok'' playlists_url, page_request ''tok'' saved_tracks_url])
   \<and> getPlaylistsWithTracks all_served track_name (logged [])
     = Some (Inr [liked_playlist [JObj [(''name'', JStr ''Song'')]],
                  named_playlist mix [JObj [(''name'', JStr ''Song'')]]],
             logged [page_request ''tok'' playlists_url, page_request ''tok'' saved_tracks_url,
                     page_request ''tok'' (tracks_url (JStr ''p1''))])
   \<and> map (\<lambda>x. field x ''id'') [named_playlist mix [JObj [(''name'', JStr ''Song'')]]]
     = map (\<lambda>p. field p ''id'') [mix]"
proof -
  let ?r1 = "page_request ''tok'' playlists_url"
  let ?r2 = "page_request ''tok'' saved_tracks_url"
  let ?r3 = "page_request ''tok'' (tracks_url (JStr ''p1''))"
  let ?sn = "JObj [(''name'', JStr ''Song'')]"
  have 1: "getAllCurrentUserPlaylists all_served (logged []) = Some (Inr [mix], logged [?r1])"
    by (simp add: scenario_defs scripted_page [where p = "page_json (Some [mix]) None"])
  have 2: "getAllSavedTracks all_served track_name (logged [?r1])
              = Some (Inr [?sn], logged [?r1, ?r2])"
    by (simp add: scenario_defs track_name_song
          scripted_page [where p = "page_json (Some [song]) None"])
  have 3: "getAllPlaylistTracks all_served track_name (JStr ''p1'') (logged [?r1, ?r2])
              = Some (Inr [?sn], logged [?r1, ?r2, ?r3])"
    by (simp add: scenario_defs track_name_song
          scripted_page [where p = "page_json (Some [song]) None"])
  have 4: "playlists_loop all_served track_name [mix] [] (logged [?r1, ?r2])
              = Some (Inr [named_playlist mix [?sn]], logged [?r1, ?r2, ?r3])"
    by (simp add: 3)
  note T = getPlaylistsWithTracks_liked_first [OF 1 2, where result = "[liked_playlist [?sn], named_playlist mix [?sn]]"
      and ?w3.0 = "logged [?r1, ?r2, ?r3]" and named = "[named_playlist mix [?sn]]"]
  have 5: "getPlaylistsWithTracks all_served track_name (logged [])
     = Some (Inr [liked_playlist [?sn], named_playlist mix [?sn]], logged [?r1, ?r2, ?r3])"
    using T 4 by simp
  have 6: "map (\<lambda>x. field x ''id'') [named_playlist mix [?sn]] = map (\<lambda>p. field p ''id'') [mix]"
    using T 4 by blast
  from 1 2 5 6 show ?thesis by simp
qed

subsection \<open>PKCE material\<close>

lemma toString16_length: "1 \<le> length (toString16 n)"
  by (subst toString16.simps) simp

lemma hex2_length: "length (hex2 b) = 2"
  using toString16_length [of "unat b"]
  by (simp add: hex2_def slice_last2_def)

lemma concat_hex2_length: "length (concat (map hex2 bs)) = 2 * length bs"
  by (induction bs) (simp_all add: hex2_length)

lemma generateRandomString_length:
  "length (fst (generateRandomString n w)) = 2 * n"
  using concat_hex2_length [of "map (entropy w) [drawn w ..< drawn w + n]"]
  by (simp add: generateRandomString_def getRandomValues_def del: map_map)

lemma strip_trailing_eq_Cons:
  "strip_trailing_eq (x # s) =
     (if x = CHR ''='' \<and> strip_trailing_eq s = [] then [] else x # strip_trailing_eq s)"
  by (auto simp: strip_trailing_eq_def dropWhile_append)

lemma strip_trailing_eq_Nil [simp]: "strip_trailing_eq [] = []"
  by (simp add: strip_trailing_eq_def)

lemma alphabet_map: "map to_url b64_alphabet = b64url_alphabet"
  by (simp add: b64_alphabet_def b64url_alphabet_def to_url_def)

lemma alphabet_length: "length b64_alphabet = 64" "length b64url_alphabet = 64"
  by (simp_all add: b64_alphabet_def b64url_alphabet_def)

lemma to_url_b64_char: "i < 64 \<Longrightarrow> to_url (b64_char i) = b64url_char i"
  using nth_map [of i b64_alphabet to_url]
  by (simp add: alphabet_map alphabet_length b64_char_def b64url_char_def)

lemma url_alphabet_chars:
  "CHR ''='' \<notin> set b64url_alphabet" "CHR ''+'' \<notin> set b64url_alphabet"
  "CHR ''/'' \<notin> set b64url_alphabet"
  by (simp_all add: b64url_alphabet_def)

lemma b64url_char_mem: "i < 64 \<Longrightarrow> b64url_char i \<in> set b64url_alphabet"
  by (simp add: b64url_char_def alphabet_length)

lemma b64url_char_not_eq: "i < 64 \<Longrightarrow> b64url_char i \<noteq> CHR ''=''"
  using b64url_char_mem url_alphabet_chars(1) by metis

lemma to_url_eq [simp]: "to_url CHR ''='' = CHR ''=''"
  by (simp add: to_url_def)

lemma replace_chars: 
  "replace_char CHR ''/'' CHR ''_'' (replace_char CHR ''+'' CHR ''-'' s) = map to_url s"
  by (simp add: replace_char_def to_url_def)

lemma byte_bound: "unat (a :: 8 word) < 256"
  using unsigned_less [of a, where ?'a = nat] by simp

lemma uint8ToBase64Url_spec: "uint8ToBase64Url bs = base64url_spec bs"
proof (induction bs rule: btoa.induct)
  case 1
  show ?case by (simp add: uint8ToBase64Url_def replace_char_def)
next
  case (2 a)
  have "unat a div 4 < 64" "unat a mod 4 * 16 < 64"
    using byte_bound [of a] by simp_all
  then show ?case
    by (simp add: uint8ToBase64Url_def replace_chars Let_def strip_trailing_eq_Cons
          to_url_b64_char b64url_char_not_eq)
next
  case (3 a b)
  let ?n = "unat a * 256 + unat b"
  have "?n div 1024 < 64" "?n div 16 mod 64 < 64" "?n mod 16 * 4 < 64"
    using byte_bound [of a] byte_bound [of b] by simp_all
  then show ?case
    by (simp add: uint8ToBase64Url_def replace_chars Let_def strip_trailing_eq_Cons
          to_url_b64_char b64url_char_not_eq)
next
  case (4 a b c rest)
  let ?n = "unat a * 65536 + unat b * 256 + unat c"
  have "?n div 262144 < 64" "?n div 4096 mod 64 < 64" "?n div 64 mod 64 < 64" "?n mod 64 < 64"
    using byte_bound [of a] byte_bound [of b] byte_bound [of c] by simp_all
  with 4 show ?case
    by (simp add: uint8ToBase64Url_def replace_chars Let_def strip_trailing_eq_Cons
          to_url_b64_char b64url_char_not_eq)
qed

lemma base64url_spec_chars: "set (base64url_spec bs) \<subseteq> set b64url_alphabet"
proof (induction bs rule: base64url_spec.induct)
  case 1
  show ?case by simp
next
  case (2 a)
  have "unat a div 4 < 64" "unat a mod 4 * 16 < 64"
    using byte_bound [of a] by simp_all
  then show ?case by (simp add: Let_def b64url_char_mem)
next
  case (3 a b)
  let ?n = "unat a * 256 + unat b"
  have "?n div 1024 < 64" "?n div 16 mod 64 < 64" "?n mod 16 * 4 < 64"
    using byte_bound [of a] byte_bound [of b] by simp_all
  then show ?case by (simp add: Let_def b64url_char_mem)
next
  case (4 a b c rest)
  let ?n = "unat a * 65536 + unat b * 256 + unat c"
  have "?n div 262144 < 64" "?n div 4096 mod 64 < 64" "?n div 64 mod 64 < 64" "?n mod 64 < 64"
    using byte_bound [of a] byte_bound [of b] byte_bound [of c] by simp_all
  with 4 show ?case by (simp add: Let_def b64url_char_mem)
qed

lemma base64url_spec_clean:
  "CHR ''+'' \<notin> set (base64url_spec bs)" "CHR ''/'' \<notin> set (base64url_spec bs)"
  "\<not> trailing_eq (base64url_spec bs)"
proof -
  show "CHR ''+'' \<notin> set (base64url_spec bs)" "CHR ''/'' \<notin> set (base64url_spec bs)"
    using base64url_spec_chars [of bs] url_alphabet_chars by blast+
  have "CHR ''='' \<notin> set (base64url_spec bs)"
    using base64url_spec_chars [of bs] url_alphabet_chars by blast
  then show "\<not> trailing_eq (base64url_spec bs)"
    using last_in_set [of "base64url_spec bs"] unfolding trailing_eq_def by metis
qed

lemma generateRandomString_full:
  "generateRandomString n w = (s, w') \<Longrightarrow>
     storage_full w' = storage_full w \<and> localStorage w' = localStorage w \<and> length s = 2 * n"
  using generateRandomString_length [of n w]
  by (auto simp: generateRandomString_def getRandomValues_def)

lemma verifier_state_distinct: "LS_KEYS_codeVerifier \<noteq> LS_KEYS_state"
  by (simp add: LS_KEYS_codeVerifier_def LS_KEYS_state_def)

text \<open>
  C3. Whenever \<open>beginLogin\<close> succeeds, the code verifier it stored has at least 43
  characters (it has 128), and the \<open>code_challenge\<close> of the authorization URL is
  \<open>base64url(SHA-256(codeVerifier))\<close> in the RFC's encoding, without \<^verbatim>\<open>+\<close>, without
  \<^verbatim>\<open>/\<close> and without a trailing \<^verbatim>\<open>=\<close>. It does succeed when a client id is
  configured and the storage accepts the two writes.
\<close>

theorem beginLogin_pkce_material:
  "(beginLogin sha256 options w = (Inr u, w') \<longrightarrow>
      (\<exists>verifier challenge nav.
         getItem LS_KEYS_codeVerifier w' = Some verifier
         \<and> 43 \<le> length verifier
         \<and> assigned w' = Some nav
         \<and> params_get (nav_query nav) ''code_challenge'' = Some challenge
         \<and> challenge = base64url_spec (sha256 (encode verifier))
         \<and> CHR ''+'' \<notin> set challenge \<and> CHR ''/'' \<notin> set challenge
         \<and> \<not> trailing_eq challenge))
   \<and> (truthy_str (default_clientId options w) \<and> \<not> storage_full w \<longrightarrow>
        fst (beginLogin sha256 options w) = Inr ())"
proof (intro conjI impI)
  assume b: "beginLogin sha256 options w = (Inr u, w')"
  obtain v w1 where v: "generateRandomString 64 w = (v, w1)"
    by (cases "generateRandomString 64 w")
  obtain s w2 where s: "generateRandomString 16 w1 = (s, w2)"
    by (cases "generateRandomString 16 w1")
  have len: "length v = 128"
    using generateRandomString_full [OF v] by simp
  from b v s obtain w3 w4 where
    w3: "setItem LS_KEYS_codeVerifier v w2 = Inr w3"
    and w4: "setItem LS_KEYS_state s w3 = Inr w4"
    and w': "w' = w4\<lparr>assigned := Some
               \<lparr>nav_target = AUTHORIZE_ENDPOINT,
                nav_query =
                  [(''response_type'', ''code''),
                   (''client_id'', the (default_clientId options w)),
                   (''scope'', (case opt_scopes options of None \<Rightarrow> DEFAULT_SCOPES | Some s \<Rightarrow> s)),
                   (''redirect_uri'', str_of (default_redirectUri options w)),
                   (''code_challenge_method'', ''S256''),
                   (''code_challenge'', sha256Base64Url sha256 v),
                   (''state'', s)]\<rparr>\<rparr>"
    by (auto simp: beginLogin_def Let_def split: if_splits sum.splits)
  have "getItem LS_KEYS_codeVerifier w3 = Some v"
    using w3 by (auto simp: setItem_def getItem_def split: if_splits)
  then have "getItem LS_KEYS_codeVerifier w4 = Some v"
    using w4 verifier_state_distinct by (auto simp: setItem_def getItem_def split: if_splits)
  then have g: "getItem LS_KEYS_codeVerifier w' = Some v"
    by (simp add: w' getItem_def)
  have c: "params_get (nav_query (the (assigned w'))) ''code_challenge''
             = Some (base64url_spec (sha256 (encode v)))"
    by (simp add: w' params_get_def sha256Base64Url_def uint8ToBase64Url_spec)
  show "\<exists>verifier challenge nav.
         getItem LS_KEYS_codeVerifier w' = Some verifier
         \<and> 43 \<le> length verifier
         \<and> assigned w' = Some nav
         \<and> params_get (nav_query nav) ''code_challenge'' = Some challenge
         \<and> challenge = base64url_spec (sha256 (encode verifier))
         \<and> CHR ''+'' \<notin> set challenge \<and> CHR ''/'' \<notin> set challenge
         \<and> \<not> trailing_eq challenge"
    using g len c base64url_spec_clean [of "sha256 (encode v)"]
    by (intro exI [of _ v] exI [of _ "base64url_spec (sha256 (encode v))"]
          exI [of _ "the (assigned w')"]) (simp add: w')
next
  assume h: "truthy_str (default_clientId options w) \<and> \<not> storage_full w"
  obtain v w1 where v: "generateRandomString 64 w = (v, w1)"
    by (cases "generateRandomString 64 w")
  obtain s w2 where s: "generateRandomString 16 w1 = (s, w2)"
    by (cases "generateRandomString 16 w1")
  have "\<not> storage_full w2"
    using generateRandomString_full [OF v] generateRandomString_full [OF s] h by simp
  then show "fst (beginLogin sha256 options w) = Inr ()"
    using h v s by (simp add: beginLogin_def Let_def setItem_def)
qed

theorem beginLogin_pkce_material_witness:
  "truthy_str (default_clientId no_options page_load) \<and> \<not> storage_full page_load
   \<and> fst (beginLogin first32 no_options page_load) = Inr ()
   \<and> (\<exists>verifier challenge nav.
         getItem LS_KEYS_codeVerifier (snd (beginLogin first32 no_options page_load))
           = Some verifier
         \<and> 43 \<le> length verifier
         \<and> assigned (snd (beginLogin first32 no_options page_load)) = Some nav
         \<and> params_get (nav_query nav) ''code_challenge'' = Some challenge
         \<and> challenge = base64url_spec (first32 (encode verifier)))"
proof -
  have h: "truthy_str (default_clientId no_options page_load)" "\<not> storage_full page_load"
    by (simp_all add: default_clientId_def no_options_def page_load_def truthy_str_def)
  note T = beginLogin_pkce_material [where ?sha256.0 = first32 and options = no_options and w = page_load
      and u = "()" and w' = "snd (beginLogin first32 no_options page_load)"]
  have r: "fst (beginLogin first32 no_options page_load) = Inr ()"
    using T h by blast
  then have "beginLogin first32 no_options page_load
      = (Inr (), snd (beginLogin first32 no_options page_load))"
    by (cases "beginLogin first32 no_options page_load") simp
  with T have "\<exists>verifier challenge nav.
         getItem LS_KEYS_codeVerifier (snd (beginLogin first32 no_options page_load))
           = Some verifier
         \<and> 43 \<le> length verifier
         \<and> assigned (snd (beginLogin first32 no_options page_load)) = Some nav
         \<and> params_get (nav_query nav) ''code_challenge'' = Some challenge
         \<and> challenge = base64url_spec (first32 (encode verifier))"
    by blast
  with h r show ?thesis by blast
qed

subsection \<open>The playlists cache\<close>

lemma user_summary_or [simp]: "js_or (user_summary user) JNull = user_summary user"
  by (simp add: user_summary_def js_or_def)

lemma backup_fields [simp]:
  "field (backup_of r) ''data'' = rec_data r"
  "field (backup_of r) ''user'' = js_or (rec_user r) JNull"
  "field (backup_of r) ''createdAt'' = JNum (rec_createdAt r)"
  "truthy (backup_of r)"
  by (simp_all add: backup_of_def field_def)

lemma save_result:
  "\<not> idb_fails w \<Longrightarrow>
   savePlaylistsCache stringify X user w =
     (Inr (int (now w)),
      if storage_full w then w\<lparr>idb := (idb w)(PLAYLISTS_KEY \<mapsto> make_record X user w)\<rparr>
      else w\<lparr>idb := (idb w)(PLAYLISTS_KEY \<mapsto> make_record X user w),
             localStorage := (localStorage w)(BACKUP_KEY \<mapsto>
                stringify (backup_of (make_record X user w)))\<rparr>)"
  by (simp add: savePlaylistsCache_def putRecord_def setItem_def make_record_def Let_def)

text \<open>
  C4, as the code has it. If the IndexedDB write succeeds, saving \<open>X\<close> and then loading
  returns a record whose data is \<open>X\<close> and whose \<open>createdAt\<close> is the clock reading the
  save took, in both copies of the module. When the primary store afterwards yields
  no record, the copy with the backup returns the backup of the same data provided
  the best-effort backup write did not throw, \<open>X\<close> is truthy (every array is) and the
  JSON text parses back to the backup object; when that write threw and no older
  backup exists, and in the IndexedDB-only copy, load returns \<open>null\<close>.
\<close>

theorem playlists_cache_round_trip:
  "(\<not> idb_fails w \<longrightarrow>
      fst (savePlaylistsCache stringify X user w) = Inr (int (now w))
      \<and> loadPlaylistsCache parse (snd (savePlaylistsCache stringify X user w))
          = Inr (Some \<lparr>c_playlists = X, c_user = user_summary user,
                        c_createdAt = JNum (int (now w))\<rparr>))
   \<and> (\<not> idb_fails w \<and> \<not> storage_full w \<and> truthy X
       \<and> stringify (backup_of (make_record X user w)) \<noteq> []
       \<and> parse (stringify (backup_of (make_record X user w)))
           = Some (backup_of (make_record X user w))
       \<and> store PLAYLISTS_KEY = None \<longrightarrow>
      loadPlaylistsCache parse ((snd (savePlaylistsCache stringify X user w))\<lparr>idb := store\<rparr>)
        = Inr (Some \<lparr>c_playlists = X, c_user = user_summary user,
                      c_createdAt = js_or (JNum (int (now w))) JNull\<rparr>))
   \<and> (\<not> idb_fails w \<and> storage_full w \<and> getItem BACKUP_KEY w = None
       \<and> store PLAYLISTS_KEY = None \<longrightarrow>
      loadPlaylistsCache parse ((snd (savePlaylistsCache stringify X user w))\<lparr>idb := store\<rparr>)
        = Inr None)
   \<and> (\<not> idb_fails w \<longrightarrow>
      fst (savePlaylistsCache_idb X user w) = Inr (int (now w))
      \<and> loadPlaylistsCache_idb (snd (savePlaylistsCache_idb X user w))
          = Inr (Some \<lparr>c_playlists = X, c_user = user_summary user,
                        c_createdAt = JNum (int (now w))\<rparr>))
   \<and> (\<not> idb_fails w \<and> store PLAYLISTS_KEY = None \<longrightarrow>
      loadPlaylistsCache_idb ((snd (savePlaylistsCache_idb X user w))\<lparr>idb := store\<rparr>)
        = Inr None)"
proof (intro conjI impI)
  assume h: "\<not> idb_fails w"
  show "fst (savePlaylistsCache stringify X user w) = Inr (int (now w))"
    using h by (simp add: save_result)
  show "loadPlaylistsCache parse (snd (savePlaylistsCache stringify X user w))
          = Inr (Some \<lparr>c_playlists = X, c_user = user_summary user,
                        c_createdAt = JNum (int (now w))\<rparr>)"
    using h by (simp add: save_result loadPlaylistsCache_def getRecord_def make_record_def)
  show "fst (savePlaylistsCache_idb X user w) = Inr (int (now w))"
    using h by (simp add: savePlaylistsCache_idb_def putRecord_def make_record_def Let_def)
  show "loadPlaylistsCache_idb (snd (savePlaylistsCache_idb X user w))
          = Inr (Some \<lparr>c_playlists = X, c_user = user_summary user,
                        c_createdAt = JNum (int (now w))\<rparr>)"
    using h
    by (simp add: savePlaylistsCache_idb_def loadPlaylistsCache_idb_def putRecord_def
          getRecord_def make_record_def Let_def)
next
  assume h: "\<not> idb_fails w \<and> \<not> storage_full w \<and> truthy X
       \<and> stringify (backup_of (make_record X user w)) \<noteq> []
       \<and> parse (stringify (backup_of (make_record X user w)))
           = Some (backup_of (make_record X user w))
       \<and> store PLAYLISTS_KEY = None"
  then show "loadPlaylistsCache parse ((snd (savePlaylistsCache stringify X user w))\<lparr>idb := store\<rparr>)
        = Inr (Some \<lparr>c_playlists = X, c_user = user_summary user,
                      c_createdAt = js_or (JNum (int (now w))) JNull\<rparr>)"
    by (simp add: save_result loadPlaylistsCache_def getRecord_def getItem_def truthy_str_def)
       (simp add: make_record_def)
next
  assume "\<not> idb_fails w \<and> storage_full w \<and> getItem BACKUP_KEY w = None
       \<and> store PLAYLISTS_KEY = None"
  then show "loadPlaylistsCache parse
       ((snd (savePlaylistsCache stringify X user w))\<lparr>idb := store\<rparr>) = Inr None"
    by (simp add: save_result loadPlaylistsCache_def getRecord_def getItem_def truthy_str_def)
next
  assume "\<not> idb_fails w \<and> store PLAYLISTS_KEY = None"
  then show "loadPlaylistsCache_idb
       ((snd (savePlaylistsCache_idb X user w))\<lparr>idb := store\<rparr>) = Inr None"
    by (simp add: savePlaylistsCache_idb_def loadPlaylistsCache_idb_def putRecord_def
          getRecord_def Let_def)
qed

theorem playlists_cache_round_trip_witness:
  "\<not> idb_fails page_load \<and> \<not> storage_full page_load \<and> truthy library
   \<and> stub_stringify (backup_of (make_record library ann page_load)) \<noteq> []
   \<and> stub_parse (backup_of (make_record library ann page_load))
        (stub_stringify (backup_of (make_record library ann page_load)))
       = Some (backup_of (make_record library ann page_load))
   \<and> fst (savePlaylistsCache stub_stringify library ann page_load) = Inr 1700000000000
   \<and> loadPlaylistsCache (stub_parse (backup_of (make_record library ann page_load)))
        (snd (savePlaylistsCache stub_stringify library ann page_load))
       = Inr (Some \<lparr>c_playlists = library, c_user = ann, c_createdAt = JNum 1700000000000\<rparr>)
   \<and> loadPlaylistsCache (stub_parse (backup_of (make_record library ann page_load)))
        (evicted (snd (savePlaylistsCache stub_stringify library ann page_load)))
       = Inr (Some \<lparr>c_playlists = library, c_user = ann, c_createdAt = JNum 1700000000000\<rparr>)
   \<and> loadPlaylistsCache_idb (snd (savePlaylistsCache_idb library ann page_load))
       = Inr (Some \<lparr>c_playlists = library, c_user = ann, c_createdAt = JNum 1700000000000\<rparr>)
   \<and> storage_full full_storage \<and> getItem BACKUP_KEY full_storage = None
   \<and> loadPlaylistsCache (stub_parse (backup_of (make_record library ann full_storage)))
        (evicted (snd (savePlaylistsCache stub_stringify library ann full_storage)))
       = Inr None
   \<and> loadPlaylistsCache_idb (evicted (snd (savePlaylistsCache_idb library ann page_load)))
       = Inr None"
proof -
  have h: "\<not> idb_fails page_load" "\<not> storage_full page_load" "truthy library"
    "stub_stringify (backup_of (make_record library ann page_load)) \<noteq> []"
    "stub_parse (backup_of (make_record library ann page_load))
        (stub_stringify (backup_of (make_record library ann page_load)))
       = Some (backup_of (make_record library ann page_load))"
    "Map.empty PLAYLISTS_KEY = None"
    by (simp_all add: page_load_def library_def stub_stringify_def stub_parse_def)
  have u: "user_summary ann = ann" "int (now page_load) = 1700000000000"
    "js_or (JNum 1700000000000) JNull = JNum 1700000000000"
    by (simp_all add: user_summary_def ann_def field_def js_or_def page_load_def)
  note T = playlists_cache_round_trip [where w = page_load and stringify = stub_stringify and X = library
      and user = ann and store = Map.empty
      and parse = "stub_parse (backup_of (make_record library ann page_load))"]
  have f: "\<not> idb_fails full_storage" "storage_full full_storage"
    "getItem BACKUP_KEY full_storage = None"
    by (simp_all add: full_storage_def page_load_def getItem_def)
  note F = playlists_cache_round_trip [where w = full_storage and stringify = stub_stringify and X = library
      and user = ann and store = Map.empty
      and parse = "stub_parse (backup_of (make_record library ann full_storage))"]
  from T h F f show ?thesis
    unfolding evicted_def u by blast
qed

text \<open>
  C4, as the claim words it, fails after a successful save: with a throwing
  \<^verbatim>\<open>localStorage.setItem\<close> the save still succeeds and no backup exists, and the
  IndexedDB-only copy of the module never writes one. Once the primary store has
  lost the record, load returns \<open>null\<close>.
\<close>

theorem playlists_cache_fallback_counterexample:
  "fst (savePlaylistsCache stub_stringify library ann full_storage)
     = Inr (int (now full_storage))
   \<and> loadPlaylistsCache (stub_parse (backup_of (make_record library ann full_storage)))
       (evicted (snd (savePlaylistsCache stub_stringify library ann full_storage)))
     = Inr None
   \<and> fst (savePlaylistsCache_idb library ann page_load) = Inr (int (now page_load))
   \<and> loadPlaylistsCache_idb (evicted (snd (savePlaylistsCache_idb library ann page_load)))
     = Inr None"
  by (simp add: savePlaylistsCache_def savePlaylistsCache_idb_def loadPlaylistsCache_def
        loadPlaylistsCache_idb_def putRecord_def getRecord_def setItem_def getItem_def
        evicted_def full_storage_def page_load_def make_record_def truthy_str_def Let_def)

end
